theory Spec2Isabelle
  imports Main "HOL-Library.AList"
begin

section \<open>Data model\<close>

text \<open>
  \<^verbatim>\<open>Product\<close> (utils/products.types) and \<^verbatim>\<open>CartItem\<close> (context/CartContext.tsx).
  Only the fields the cart code reads are kept: \<^verbatim>\<open>id\<close>, \<^verbatim>\<open>name\<close>, \<^verbatim>\<open>price\<close>.
  A TypeScript \<^verbatim>\<open>number\<close> that holds a quantity is an \<open>int\<close>: zero and negative
  values are well-typed inputs; fractions and NaN are outside the model.
\<close>

record product =
  product_id :: string
  product_name :: string
  price :: int

record cart_item =
  product :: product
  quantity :: int

type_synonym cart = "cart_item list"

definition item_id :: "cart_item \<Rightarrow> string" where
  "item_id item = product_id (product item)"

text \<open>The notifications of \<^verbatim>\<open>sonner\<close>: \<^verbatim>\<open>toast.success(msg)\<close> and \<^verbatim>\<open>toast.error(msg)\<close>.\<close>

datatype toast = Success string | Error string

section \<open>CartStore: the state of \<^verbatim>\<open>CartProvider\<close> and its four operations\<close>

text \<open>
  The part of the provider's state that the four public operations touch: the React state
  \<^verbatim>\<open>items\<close>, the browser's \<^verbatim>\<open>localStorage\<close> (a string-keyed map of strings) and the
  notifications emitted so far.
\<close>

record cart_store =
  items :: cart
  localStorage :: "string \<rightharpoonup> string"
  toasts :: "toast list"

definition initial_store :: cart_store where
  "initial_store = \<lparr>items = [], localStorage = Map.empty, toasts = []\<rparr>"

text \<open>
  \<^verbatim>\<open>addItem(product, quantity = 1)\<close>: accumulate on an existing line, else append.
  No check is made on \<^verbatim>\<open>quantity\<close>.
\<close>

definition addItem :: "product \<Rightarrow> int \<Rightarrow> 'a cart_store_scheme \<Rightarrow> 'a cart_store_scheme" where
  "addItem p q s =
     (case find (\<lambda>item. item_id item = product_id p) (items s) of
        Some existingItem \<Rightarrow>
          s\<lparr>items := map (\<lambda>item. if item_id item = product_id p
                                   then item\<lparr>quantity := quantity item + q\<rparr>
                                   else item) (items s),
            toasts := toasts s @ [Success (''Updated '' @ product_name p @ '' quantity in cart'')]\<rparr>
      | None \<Rightarrow>
          s\<lparr>items := items s @ [\<lparr>product = p, quantity = q\<rparr>],
            toasts := toasts s @ [Success (''Added '' @ product_name p @ '' to cart'')]\<rparr>)"

definition addItem_default :: "product \<Rightarrow> 'a cart_store_scheme \<Rightarrow> 'a cart_store_scheme" where
  "addItem_default p s = addItem p 1 s"

definition removeItem :: "string \<Rightarrow> 'a cart_store_scheme \<Rightarrow> 'a cart_store_scheme" where
  "removeItem productId s =
     (let s1 = (case find (\<lambda>item. item_id item = productId) (items s) of
                  Some item \<Rightarrow>
                    s\<lparr>toasts := toasts s @
                       [Success (''Removed '' @ product_name (product item) @ '' from cart'')]\<rparr>
                | None \<Rightarrow> s)
      in s1\<lparr>items := filter (\<lambda>item. item_id item \<noteq> productId) (items s)\<rparr>)"

definition updateQuantity :: "string \<Rightarrow> int \<Rightarrow> 'a cart_store_scheme \<Rightarrow> 'a cart_store_scheme" where
  "updateQuantity productId q s =
     (if q \<le> 0 then removeItem productId s
      else s\<lparr>items := map (\<lambda>item. if item_id item = productId
                                    then item\<lparr>quantity := q\<rparr>
                                    else item) (items s)\<rparr>)"

definition clearCart :: "'a cart_store_scheme \<Rightarrow> 'a cart_store_scheme" where
  "clearCart s =
     s\<lparr>items := [],
       toasts := toasts s @ [Success ''Cart cleared''],
       localStorage := (localStorage s)(''cart'' := None, ''cartMerged'' := None,
                                        ''checkoutComplete'' := None)\<rparr>"

text \<open>Sequences of the public operations, run from a given store.\<close>

datatype cart_op =
    AddItem product int
  | RemoveItem string
  | UpdateQuantity string int
  | ClearCart

fun apply_op :: "'a cart_store_scheme \<Rightarrow> cart_op \<Rightarrow> 'a cart_store_scheme" where
  "apply_op s (AddItem p q) = addItem p q s"
| "apply_op s (RemoveItem productId) = removeItem productId s"
| "apply_op s (UpdateQuantity productId q) = updateQuantity productId q s"
| "apply_op s ClearCart = clearCart s"

definition run_ops :: "cart_op list \<Rightarrow> 'a cart_store_scheme \<Rightarrow> 'a cart_store_scheme" where
  "run_ops ops s = foldl apply_op s ops"

text \<open>The cart invariant of the data model: positive quantities, one line per product.\<close>

definition quantities_positive :: "cart \<Rightarrow> bool" where
  "quantities_positive c = list_all (\<lambda>item. 1 \<le> quantity item) c"

definition ids_unique :: "cart \<Rightarrow> bool" where
  "ids_unique c = distinct (map item_id c)"

fun adds_positive :: "cart_op \<Rightarrow> bool" where
  "adds_positive (AddItem p q) = (1 \<le> q)"
| "adds_positive _ = True"

section \<open>JavaScript \<^verbatim>\<open>Map\<close> and \<^verbatim>\<open>String.prototype.includes\<close>\<close>

text \<open>
  A \<^verbatim>\<open>Map\<close> keeps its entries in insertion order and \<^verbatim>\<open>set\<close> on a present key
  replaces the value in place: an association list with \<open>AList.update\<close>.
\<close>

type_synonym ('k, 'v) js_map = "('k \<times> 'v) list"

definition Map_set :: "'k \<Rightarrow> 'v \<Rightarrow> ('k, 'v) js_map \<Rightarrow> ('k, 'v) js_map" where
  "Map_set k v m = AList.update k v m"

definition Map_has :: "'k \<Rightarrow> ('k, 'v) js_map \<Rightarrow> bool" where
  "Map_has k m = (map_of m k \<noteq> None)"

definition Map_get :: "'k \<Rightarrow> ('k, 'v) js_map \<Rightarrow> 'v option" where
  "Map_get k m = map_of m k"

definition Map_values :: "('k, 'v) js_map \<Rightarrow> 'v list" where
  "Map_values m = map snd m"

fun str_includes :: "string \<Rightarrow> string \<Rightarrow> bool" where
  "str_includes [] sub = (sub = [])"
| "str_includes (c # cs) sub = (take (length sub) (c # cs) = sub \<or> str_includes cs sub)"

section \<open>\<^verbatim>\<open>mergeCarts\<close>\<close>

text \<open>
  \<^verbatim>\<open>cartA.forEach(item => mergedMap.set(item.product.id, { ...item }))\<close>, then for each
  item of \<^verbatim>\<open>cartB\<close> either \<^verbatim>\<open>mergedMap.get(id)!.quantity += item.quantity\<close> or a
  \<^verbatim>\<open>set\<close> of a copy. The copies \<^verbatim>\<open>{ ...item }\<close> make the stored lines independent of the
  arguments, so values suffice.
\<close>

definition mergeCarts :: "cart \<Rightarrow> cart \<Rightarrow> cart" where
  "mergeCarts cartA cartB =
     (let mergedMap0 = foldl (\<lambda>m item. Map_set (item_id item) item m) [] cartA;
          mergedMap = foldl (\<lambda>m item.
                         if Map_has (item_id item) m
                         then AList.map_entry (item_id item)
                                (\<lambda>e. e\<lparr>quantity := quantity e + quantity item\<rparr>) m
                         else Map_set (item_id item) item m) mergedMap0 cartB
      in Map_values mergedMap)"

text \<open>A cart read as the mapping from product id to quantity.\<close>

definition cart_quantities :: "cart \<Rightarrow> string \<rightharpoonup> int" where
  "cart_quantities c = map_of (map (\<lambda>item. (item_id item, quantity item)) c)"

text \<open>
  The additive merge in the words of the specification: quantities sum on a shared id,
  an unmatched id keeps its quantity.
\<close>

definition additive_merge :: "int option \<Rightarrow> int option \<Rightarrow> int option" where
  "additive_merge a b =
     (case a of
        None \<Rightarrow> b
      | Some x \<Rightarrow> (case b of None \<Rightarrow> Some x | Some y \<Rightarrow> Some (x + y)))"

section \<open>The HTTP layer (services/api)\<close>

text \<open>
  What the code inspects of a parsed JSON body: whether it is an array (of cart lines, with
  \<^verbatim>\<open>product_details\<close> and \<^verbatim>\<open>quantity\<close>) and the string fields \<^verbatim>\<open>token\<close> and \<^verbatim>\<open>id\<close>
  of an object. Bodies that are falsy JSON values are outside the model.
\<close>

datatype json = JsonArray cart | JsonObject "(string \<times> string) list"

datatype response_body = Unparseable string | Parsed json

text \<open>
  The outcome of one \<^verbatim>\<open>fetch\<close>: the promise rejects (a \<^verbatim>\<open>TypeError\<close> with a message), or
  it resolves to a response with a status and a body; \<^verbatim>\<open>response.json()\<close> rejects with a
  \<^verbatim>\<open>SyntaxError\<close> message on an \<open>Unparseable\<close> body. A thrown \<^verbatim>\<open>Error\<close> is its message.
\<close>

datatype fetch_outcome = NetworkError string | Response nat response_body

record address =
  firstName :: string
  lastName :: string
  street :: string
  city :: string
  state :: string
  zip :: string
  phone :: string

datatype payment_method = Paypal | Cod

record order_line =
  line_product_id :: string
  line_quantity :: int
  line_price :: int

record order_data =
  order_items :: "order_line list"
  total_amount :: int
  order_payment_method :: payment_method
  shipping :: address

datatype api_call =
    MergeCart cart
  | GetUserCart
  | AddItemToCart string int
  | RemoveItemFromCart string
  | UpdateItemQuantity string int
  | ClearBackendCart
  | GetUserProfile
  | RefreshToken string
  | CreateOrder order_data

text \<open>
  The backend is the collaborator: it answers a call given the calls made before it.
\<close>

type_synonym server = "api_call list \<Rightarrow> api_call \<Rightarrow> fetch_outcome"

text \<open>
  \<^verbatim>\<open>apiRequest\<close>: awaits \<^verbatim>\<open>fetch\<close>, logs to the console when the status is 401, and
  returns \<^verbatim>\<open>response.json()\<close> whatever the status. It throws only what \<^verbatim>\<open>fetch\<close> or
  \<^verbatim>\<open>response.json()\<close> throw; the console is not part of the model, so the status plays
  no role in the result.
\<close>

fun apiRequest :: "fetch_outcome \<Rightarrow> string + json" where
  "apiRequest (NetworkError msg) = Inl msg"
| "apiRequest (Response status (Unparseable msg)) = Inl msg"
| "apiRequest (Response status (Parsed body)) = Inr body"

text \<open>
  \<^verbatim>\<open>authService.refreshToken\<close> uses \<^verbatim>\<open>fetch\<close> directly and does throw when
  \<^verbatim>\<open>res.ok\<close> is false (a status outside 200..299).
\<close>

fun authService_refreshToken :: "fetch_outcome \<Rightarrow> string + json" where
  "authService_refreshToken (NetworkError msg) = Inl msg"
| "authService_refreshToken (Response status body) =
     (if \<not> (200 \<le> status \<and> status \<le> 299) then Inl ''Failed to refresh token''
      else (case body of Unparseable msg \<Rightarrow> Inl msg | Parsed j \<Rightarrow> Inr j))"

definition json_field :: "string \<Rightarrow> json \<Rightarrow> string option" where
  "json_field name j = (case j of JsonArray xs \<Rightarrow> None | JsonObject kvs \<Rightarrow> map_of kvs name)"

section \<open>The state of the two providers\<close>

text \<open>
  The \<^verbatim>\<open>authTokens\<close> record of \<^verbatim>\<open>localStorage\<close>, as
  \<^verbatim>\<open>JSON.parse(localStorage.getItem('authTokens') || 'null')\<close> sees it: absent, not
  parseable (the parse throws), or an object with optional \<^verbatim>\<open>access\<close> and \<^verbatim>\<open>refresh\<close>.
\<close>

datatype token_slot = NoTokens | CorruptTokens | Tokens "string option" "string option"

text \<open>
  \<^verbatim>\<open>CartProvider\<close>: \<^verbatim>\<open>items\<close>, \<^verbatim>\<open>lastSyncedItemsRef\<close>, \<^verbatim>\<open>syncingRef\<close>, \<^verbatim>\<open>initialLoadRef\<close> and
  the pending debounce timer, held with the \<^verbatim>\<open>items\<close> its callback closed over.
  \<^verbatim>\<open>AuthProvider\<close>: \<^verbatim>\<open>user\<close>, \<^verbatim>\<open>lastRefreshAttempt\<close>, whether a renewal interval is armed,
  and the \<^verbatim>\<open>authTokens\<close> and \<^verbatim>\<open>user\<close> records of \<^verbatim>\<open>localStorage\<close>.
  \<^verbatim>\<open>useCheckout\<close>: \<^verbatim>\<open>isProcessing\<close> and the routes passed to \<^verbatim>\<open>navigate\<close>.
  \<open>requests\<close> is the log of calls sent to the backend. Every function below reads the
  state of the latest render (\<^verbatim>\<open>isAuthenticated\<close> is \<^verbatim>\<open>!!user\<close>).
\<close>

record app = cart_store +
  lastSyncedItems :: cart
  syncing :: bool
  initialLoad :: bool
  debounceTimeout :: "cart option"
  user :: "json option"
  lastRefreshAttempt :: int
  refreshTimer :: bool
  authTokens :: token_slot
  storedUser :: "json option"
  isProcessing :: bool
  navigations :: "string list"
  requests :: "api_call list"

definition isAuthenticated :: "app \<Rightarrow> bool" where
  "isAuthenticated s = (user s \<noteq> None)"

text \<open>One awaited \<^verbatim>\<open>apiRequest\<close>: the call is logged and the backend's answer interpreted.\<close>

definition request :: "server \<Rightarrow> api_call \<Rightarrow> app \<Rightarrow> (string + json) \<times> app" where
  "request srv c s = (apiRequest (srv (requests s) c), s\<lparr>requests := requests s @ [c]\<rparr>)"

section \<open>\<^verbatim>\<open>AuthProvider\<close>\<close>

definition clearAuthState :: "app \<Rightarrow> app" where
  "clearAuthState s = s\<lparr>authTokens := NoTokens, storedUser := None, user := None,
                        refreshTimer := False\<rparr>"

definition signOut :: "app \<Rightarrow> app" where
  "signOut s = (let s1 = clearAuthState s
                in s1\<lparr>toasts := toasts s1 @ [Success ''Signed out successfully'']\<rparr>)"

text \<open>JavaScript truthiness of an optional string: present and not empty.\<close>

fun truthy :: "string option \<Rightarrow> bool" where
  "truthy None = False"
| "truthy (Some v) = (v \<noteq> [])"

fun read_tokens :: "token_slot \<Rightarrow> string + (string option \<times> string option)" where
  "read_tokens NoTokens = Inr (None, None)"
| "read_tokens CorruptTokens = Inl ''Unexpected token in JSON''"
| "read_tokens (Tokens access refresh) = Inr (access, refresh)"

text \<open>
  \<^verbatim>\<open>attemptTokenRefresh\<close>. The read of \<^verbatim>\<open>authTokens\<close> is outside its \<^verbatim>\<open>try\<close>, so a parse
  error leaves the function as an exception (\<open>Inl\<close>); everything after it is caught.
\<close>

definition attemptTokenRefresh :: "server \<Rightarrow> app \<Rightarrow> (string + bool) \<times> app" where
  "attemptTokenRefresh srv s =
     (case read_tokens (authTokens s) of
        Inl e \<Rightarrow> (Inl e, s)
      | Inr (access, refresh) \<Rightarrow>
          (case refresh of
             None \<Rightarrow> (Inr False, s)
           | Some refreshTokenValue \<Rightarrow>
               if refreshTokenValue = [] then (Inr False, s)
               else
                 (let c = RefreshToken refreshTokenValue;
                      s1 = s\<lparr>requests := requests s @ [c]\<rparr>
                  in case authService_refreshToken (srv (requests s) c) of
                       Inl e \<Rightarrow> (Inr False, clearAuthState s1)
                     | Inr response \<Rightarrow>
                         if truthy (json_field ''token'' response) then
                           (let s2 = s1\<lparr>authTokens :=
                                         Tokens (json_field ''token'' response)
                                                (Some refreshTokenValue)\<rparr>
                            in case request srv GetUserProfile s2 of
                                 (Inr userData, s3) \<Rightarrow>
                                   (Inr True, s3\<lparr>user := Some userData,
                                                 storedUser := Some userData\<rparr>)
                               | (Inl e, s3) \<Rightarrow> (Inr True, s3))
                         else (Inr False, clearAuthState s1))))"

text \<open>
  \<^verbatim>\<open>refreshToken\<close>, called at clock reading \<open>now\<close> (\<^verbatim>\<open>Date.now()\<close>, in milliseconds).
\<close>

definition refreshToken :: "int \<Rightarrow> server \<Rightarrow> app \<Rightarrow> bool \<times> app" where
  "refreshToken now srv s =
     (if now - lastRefreshAttempt s < 2000 then (user s \<noteq> None, s)
      else
        (let s1 = s\<lparr>lastRefreshAttempt := now\<rparr>
         in case read_tokens (authTokens s1) of
              Inl e \<Rightarrow> (False, clearAuthState s1)
            | Inr (accessToken, refresh) \<Rightarrow>
                if \<not> truthy accessToken then
                  (case attemptTokenRefresh srv s1 of
                     (Inl e, s2) \<Rightarrow> (False, clearAuthState s2)
                   | (Inr b, s2) \<Rightarrow> (b, s2))
                else
                  (case request srv GetUserProfile s1 of
                     (Inr userData, s2) \<Rightarrow>
                       (True, s2\<lparr>user := Some userData, storedUser := Some userData\<rparr>)
                   | (Inl e, s2) \<Rightarrow>
                       (case attemptTokenRefresh srv s2 of
                          (Inl e', s3) \<Rightarrow> (False, clearAuthState s3)
                        | (Inr b, s3) \<Rightarrow> (b, s3)))))"

text \<open>The calls to the refresh endpoint among a list of calls.\<close>

fun is_refresh_call :: "api_call \<Rightarrow> bool" where
  "is_refresh_call (RefreshToken t) = True"
| "is_refresh_call _ = False"

definition refresh_calls :: "api_call list \<Rightarrow> nat" where
  "refresh_calls cs = length (filter is_refresh_call cs)"

section \<open>\<^verbatim>\<open>CartProvider\<close>: the debounced sync effect\<close>

definition mapByProductId :: "cart \<Rightarrow> (string, cart_item) js_map" where
  "mapByProductId arr = foldl (\<lambda>m item. Map_set (item_id item) item m) [] arr"

text \<open>
  The first loop of \<^verbatim>\<open>syncCartToBackend\<close>, over \<^verbatim>\<open>lastMap.entries()\<close>: a rejected call
  leaves the loop as an exception.
\<close>

fun remove_loop ::
  "server \<Rightarrow> (string, cart_item) js_map \<Rightarrow> (string \<times> cart_item) list \<Rightarrow> app
     \<Rightarrow> (string + unit) \<times> app" where
  "remove_loop srv currentMap [] s = (Inr (), s)"
| "remove_loop srv currentMap ((productId, lastItem) # rest) s =
     (if \<not> Map_has productId currentMap then
        (case request srv (RemoveItemFromCart productId) s of
           (Inl e, s') \<Rightarrow> (Inl e, s')
         | (Inr r, s') \<Rightarrow> remove_loop srv currentMap rest s')
      else remove_loop srv currentMap rest s)"

text \<open>The second loop, over \<^verbatim>\<open>currentMap.entries()\<close>.\<close>

fun upsert_loop ::
  "server \<Rightarrow> (string, cart_item) js_map \<Rightarrow> (string \<times> cart_item) list \<Rightarrow> app
     \<Rightarrow> (string + unit) \<times> app" where
  "upsert_loop srv lastMap [] s = (Inr (), s)"
| "upsert_loop srv lastMap ((productId, currentItem) # rest) s =
     (case Map_get productId lastMap of
        None \<Rightarrow>
          (case request srv (AddItemToCart productId (quantity currentItem)) s of
             (Inl e, s') \<Rightarrow> (Inl e, s')
           | (Inr r, s') \<Rightarrow> upsert_loop srv lastMap rest s')
      | Some lastItem \<Rightarrow>
          if quantity lastItem \<noteq> quantity currentItem then
            (case request srv (UpdateItemQuantity productId (quantity currentItem)) s of
               (Inl e, s') \<Rightarrow> (Inl e, s')
             | (Inr r, s') \<Rightarrow> upsert_loop srv lastMap rest s')
          else upsert_loop srv lastMap rest s)"

text \<open>The \<^verbatim>\<open>catch\<close> handler of the cycle.\<close>

definition sync_catch :: "string \<Rightarrow> app \<Rightarrow> app" where
  "sync_catch message s =
     (if str_includes message ''Unauthorized'' then
        (let s1 = signOut s
         in s1\<lparr>toasts := toasts s1 @ [Error ''Session expired. Please log in again.'']\<rparr>)
      else s)"

text \<open>
  \<^verbatim>\<open>syncCartToBackend\<close>, the timer's callback. \<open>currentItems\<close> is the \<^verbatim>\<open>items\<close> the
  callback closed over; \<^verbatim>\<open>lastSyncedItemsRef.current\<close> is read when it runs. The
  \<^verbatim>\<open>finally\<close> block releases \<^verbatim>\<open>syncingRef\<close> on every path.
\<close>

definition syncCartToBackend :: "server \<Rightarrow> cart \<Rightarrow> app \<Rightarrow> app" where
  "syncCartToBackend srv currentItems s =
     (let lastMap = mapByProductId (lastSyncedItems s);
          currentMap = mapByProductId currentItems;
          s' = (case remove_loop srv currentMap lastMap s of
                  (Inl e, s1) \<Rightarrow> sync_catch e s1
                | (Inr u, s1) \<Rightarrow>
                    (case upsert_loop srv lastMap currentMap s1 of
                       (Inl e, s2) \<Rightarrow> sync_catch e s2
                     | (Inr u', s2) \<Rightarrow> s2\<lparr>lastSyncedItems := currentItems\<rparr>))
      in s'\<lparr>syncing := False\<rparr>)"

text \<open>
  The body of the sync effect, run after a render in which one of its dependencies
  (\<^verbatim>\<open>items\<close>, \<^verbatim>\<open>isAuthenticated\<close>, \<^verbatim>\<open>user\<close>, \<^verbatim>\<open>signOut\<close>) changed. The three early
  returns register no cleanup; the last branch sets \<^verbatim>\<open>syncingRef\<close> and arms the timer.
\<close>

definition sync_effect :: "app \<Rightarrow> app" where
  "sync_effect s =
     (if \<not> isAuthenticated s \<or> user s = None then s
      else if initialLoad s then s
      else if syncing s then s
      else s\<lparr>syncing := True, debounceTimeout := Some (items s)\<rparr>)"

text \<open>
  The cleanup \<^verbatim>\<open>() => clearTimeout(debounceTimeout)\<close>, which React runs before the effect
  runs again. A pending timer always belongs to the latest run of the effect, so running
  the cleanup leaves no timer pending.
\<close>

definition sync_cleanup :: "app \<Rightarrow> app" where
  "sync_cleanup s = s\<lparr>debounceTimeout := None\<rparr>"

text \<open>
  The events of the sync machine: a cart mutation through one of the public operations
  (each stores a new array, so the component renders again and the effect is re-run after
  its cleanup), and the debounce period of 500 ms elapsing (a pending timer, if any, fires).
\<close>

datatype sync_event = Mutation cart_op | DebounceElapsed

fun sync_step :: "server \<Rightarrow> app \<Rightarrow> sync_event \<Rightarrow> app" where
  "sync_step srv s (Mutation op) = sync_effect (sync_cleanup (apply_op s op))"
| "sync_step srv s DebounceElapsed =
     (case debounceTimeout s of
        None \<Rightarrow> s
      | Some currentItems \<Rightarrow> syncCartToBackend srv currentItems (s\<lparr>debounceTimeout := None\<rparr>))"

definition sync_run :: "server \<Rightarrow> sync_event list \<Rightarrow> app \<Rightarrow> app" where
  "sync_run srv evs s = foldl (sync_step srv) s evs"

text \<open>
  What one successful cycle must send, in the words of the specification: how many times
  each call occurs, given the baseline and the current cart.
\<close>

fun spec_call_count :: "cart \<Rightarrow> cart \<Rightarrow> api_call \<Rightarrow> nat" where
  "spec_call_count baseline current (RemoveItemFromCart k) =
     (if cart_quantities baseline k \<noteq> None \<and> cart_quantities current k = None then 1 else 0)"
| "spec_call_count baseline current (AddItemToCart k q) =
     (if cart_quantities baseline k = None \<and> cart_quantities current k = Some q then 1 else 0)"
| "spec_call_count baseline current (UpdateItemQuantity k q) =
     (case cart_quantities baseline k of
        None \<Rightarrow> 0
      | Some q0 \<Rightarrow> if cart_quantities current k = Some q \<and> q0 \<noteq> q then 1 else 0)"
| "spec_call_count baseline current c = 0"

definition server_accepts_all :: "server \<Rightarrow> bool" where
  "server_accepts_all srv = (\<forall>log c. \<exists>body. apiRequest (srv log c) = Inr body)"

section \<open>\<^verbatim>\<open>CartProvider\<close>: \<^verbatim>\<open>loadCart\<close>\<close>

text \<open>
  What \<^verbatim>\<open>JSON.parse\<close> can return for the text of the snapshot. The annotation
  \<^verbatim>\<open>CartItem[]\<close> on \<^verbatim>\<open>localCart\<close> is erased at run time, so the parsed value need not be
  an array: \<open>CartArray\<close> is an array of cart lines, \<open>Null\<close> is \<^verbatim>\<open>null\<close>, and \<open>NonArray\<close> is
  a number, a boolean or an object without a \<^verbatim>\<open>length\<close> field (its \<^verbatim>\<open>.length\<close> is
  \<^verbatim>\<open>undefined\<close> and it has no \<^verbatim>\<open>reduce\<close>). Strings, objects with a \<^verbatim>\<open>length\<close> field and
  arrays of anything but cart lines are outside the model.
\<close>

datatype js_value = CartArray cart | Null | NonArray

text \<open>
  The snapshot read of \<^verbatim>\<open>loadCart\<close>. \<^verbatim>\<open>JSON.parse\<close> is the parameter \<open>parse\<close>; \<open>None\<close> is
  the \<^verbatim>\<open>SyntaxError\<close>, which is caught. The guard \<^verbatim>\<open>if (storedCart)\<close> skips an absent
  record and the empty string alike.
\<close>

definition read_snapshot :: "(string \<Rightarrow> js_value option) \<Rightarrow> 'a cart_store_scheme
                               \<Rightarrow> js_value \<times> 'a cart_store_scheme" where
  "read_snapshot parse s =
     (case localStorage s ''cart'' of
        None \<Rightarrow> (CartArray [], s)
      | Some storedCart \<Rightarrow>
          if storedCart = [] then (CartArray [], s)
          else (case parse storedCart of
                  Some localCart \<Rightarrow> (localCart, s)
                | None \<Rightarrow> (CartArray [], s\<lparr>localStorage := (localStorage s)(''cart'' := None)\<rparr>)))"

text \<open>
  What a run of \<^verbatim>\<open>loadCart\<close> leaves behind: the value it passes to \<^verbatim>\<open>setItems\<close> and
  assigns to \<^verbatim>\<open>lastSyncedItemsRef.current\<close> (the same expression in every branch of the
  source), which the next render will see as \<^verbatim>\<open>items\<close>; and the rest of the state, with
  the storage, \<^verbatim>\<open>initialLoadRef\<close> and the request log as the run left them.
\<close>

record load_result =
  adopted :: js_value
  after :: app

text \<open>The \<^verbatim>\<open>catch\<close> handler of the authenticated branch.\<close>

definition load_fallback :: "js_value \<Rightarrow> app \<Rightarrow> load_result" where
  "load_fallback localCart s = \<lparr>adopted = localCart, after = s\<lparr>initialLoad := False\<rparr>\<rparr>"

text \<open>
  Step 1 of the authenticated branch: the test \<^verbatim>\<open>localCart.length > 0 && cartMerged !== 'true'\<close>,
  the merge push, and the flag set right after it. Reading \<^verbatim>\<open>.length\<close> of \<^verbatim>\<open>null\<close>
  throws a \<^verbatim>\<open>TypeError\<close>; \<^verbatim>\<open>undefined > 0\<close> is false.
\<close>

definition merge_push :: "server \<Rightarrow> js_value \<Rightarrow> app \<Rightarrow> (string + unit) \<times> app" where
  "merge_push srv localCart s =
     (case localCart of
        Null \<Rightarrow> (Inl ''localCart is null'', s)
      | NonArray \<Rightarrow> (Inr (), s)
      | CartArray guestCart \<Rightarrow>
          if guestCart \<noteq> [] \<and> localStorage s ''cartMerged'' \<noteq> Some ''true'' then
            (case request srv (MergeCart guestCart) s of
               (Inl e, s1) \<Rightarrow> (Inl e, s1)
             | (Inr r, s1) \<Rightarrow>
                 (Inr (), s1\<lparr>localStorage := (localStorage s1)(''cartMerged'' \<mapsto> ''true'')\<rparr>))
          else (Inr (), s))"

text \<open>
  Step 2: the fetch of the backend cart. \<^verbatim>\<open>backendCart.map\<close> throws a \<^verbatim>\<open>TypeError\<close> when
  the body is not an array.
\<close>

definition fetch_backend_cart :: "server \<Rightarrow> app \<Rightarrow> (string + cart) \<times> app" where
  "fetch_backend_cart srv s =
     (case request srv GetUserCart s of
        (Inl e, s1) \<Rightarrow> (Inl e, s1)
      | (Inr (JsonArray backendCart), s1) \<Rightarrow> (Inr backendCart, s1)
      | (Inr (JsonObject kvs), s1) \<Rightarrow> (Inl ''backendCart.map is not a function'', s1))"

text \<open>
  \<^verbatim>\<open>loadCart\<close>, run to its end. The call \<^verbatim>\<open>ordersService.clearCart()\<close> of the first branch
  is sent and not awaited.
\<close>

definition loadCart :: "(string \<Rightarrow> js_value option) \<Rightarrow> server \<Rightarrow> app \<Rightarrow> load_result" where
  "loadCart parse srv s =
     (if localStorage s ''checkoutComplete'' = Some ''true'' then
        (let s1 = s\<lparr>localStorage := (localStorage s)(''cart'' := None, ''cartMerged'' := None,
                                                      ''checkoutComplete'' := None),
                     initialLoad := False\<rparr>
         in \<lparr>adopted = CartArray [],
             after = (if isAuthenticated s \<and> user s \<noteq> None
                      then s1\<lparr>requests := requests s1 @ [ClearBackendCart]\<rparr>
                      else s1)\<rparr>)
      else
        (case read_snapshot parse s of
           (localCart, s1) \<Rightarrow>
             if isAuthenticated s \<and> user s \<noteq> None then
               (case merge_push srv localCart s1 of
                  (Inl e, s2) \<Rightarrow> load_fallback localCart s2
                | (Inr u, s2) \<Rightarrow>
                    (case fetch_backend_cart srv s2 of
                       (Inl e, s3) \<Rightarrow> load_fallback localCart s3
                     | (Inr mappedBackendCart, s3) \<Rightarrow>
                         \<lparr>adopted = CartArray mappedBackendCart,
                          after = s3\<lparr>localStorage := (localStorage s3)(''cart'' := None),
                                     initialLoad := False\<rparr>\<rparr>))
             else \<lparr>adopted = localCart, after = s1\<lparr>initialLoad := False\<rparr>\<rparr>))"

text \<open>
  The logout effect, which runs after the load effect in the same commit: for a signed-out
  user it calls \<^verbatim>\<open>setItems([])\<close> (the later call wins), clears the baseline and the two
  records, and sets \<^verbatim>\<open>initialLoadRef\<close> again; for a signed-in user it does nothing.
\<close>

definition logout_effect :: "load_result \<Rightarrow> load_result" where
  "logout_effect r =
     (if \<not> isAuthenticated (after r) then
        \<lparr>adopted = CartArray [],
         after = (after r)\<lparr>localStorage := (localStorage (after r))(''cart'' := None,
                                                                  ''cartMerged'' := None),
                         initialLoad := True\<rparr>\<rparr>
      else r)"

text \<open>
  The render that follows, with the write-through effect
  \<^verbatim>\<open>localStorage.setItem('cart', JSON.stringify(items))\<close> after it. The body of the provider
  computes \<^verbatim>\<open>totalItems\<close> and \<^verbatim>\<open>totalPrice\<close> with \<^verbatim>\<open>items.reduce\<close>, which throws a
  \<^verbatim>\<open>TypeError\<close> when \<^verbatim>\<open>items\<close> is not an array; then no effect runs. \<^verbatim>\<open>JSON.stringify\<close>
  is the parameter \<open>stringify\<close>.
\<close>

definition write_through :: "(cart \<Rightarrow> string) \<Rightarrow> 'a cart_store_scheme \<Rightarrow> 'a cart_store_scheme" where
  "write_through stringify s = s\<lparr>localStorage := (localStorage s)(''cart'' \<mapsto> stringify (items s))\<rparr>"

definition next_render :: "(cart \<Rightarrow> string) \<Rightarrow> load_result \<Rightarrow> string + app" where
  "next_render stringify r =
     (case adopted r of
        Null \<Rightarrow> Inl ''items is null''
      | NonArray \<Rightarrow> Inl ''items.reduce is not a function''
      | CartArray c \<Rightarrow>
          Inr (write_through stringify ((after r)\<lparr>items := c, lastSyncedItems := c\<rparr>)))"

text \<open>Whether the durable merge flag is set.\<close>

definition mergeCompleted :: "'a cart_store_scheme \<Rightarrow> bool" where
  "mergeCompleted s = (localStorage s ''cartMerged'' = Some ''true'')"

text \<open>The calls a run of \<^verbatim>\<open>loadCart\<close> adds to the request log.\<close>

definition load_requests :: "(string \<Rightarrow> js_value option) \<Rightarrow> server \<Rightarrow> app \<Rightarrow> api_call list" where
  "load_requests parse srv s = drop (length (requests s)) (requests (after (loadCart parse srv s)))"

section \<open>\<^verbatim>\<open>useCheckout\<close>: \<^verbatim>\<open>processCheckout\<close>\<close>

definition totalPrice :: "cart \<Rightarrow> int" where
  "totalPrice c = foldl (\<lambda>total item. total + price (product item) * quantity item) 0 c"

text \<open>
  \<^verbatim>\<open>items.map(...)\<close> of the checkout: a line whose product id is falsy throws.
\<close>

fun orderItems :: "cart \<Rightarrow> string + order_line list" where
  "orderItems [] = Inr []"
| "orderItems (item # rest) =
     (if item_id item = [] then Inl ''Invalid product data in cart''
      else (case orderItems rest of
              Inl e \<Rightarrow> Inl e
            | Inr ls \<Rightarrow> Inr (\<lparr>line_product_id = item_id item, line_quantity = quantity item,
                              line_price = price (product item)\<rparr> # ls)))"

text \<open>The \<^verbatim>\<open>catch\<close> handler of the checkout; the error is thrown again after it.\<close>

definition checkout_catch :: "string \<Rightarrow> app \<Rightarrow> app" where
  "checkout_catch message s =
     (if str_includes message ''Unauthorized'' \<or> str_includes message ''401'' \<or>
         str_includes message ''token_not_valid'' \<or> str_includes message ''Token is invalid''
      then s\<lparr>toasts := toasts s @
                [Error ''Your session has expired. Please sign in again to continue.''],
             navigations := navigations s @ [''/cart'']\<rparr>
      else s\<lparr>toasts := toasts s @
                [Error (if message = [] then ''Failed to process your order'' else message)]\<rparr>)"

text \<open>
  \<^verbatim>\<open>processCheckout\<close> at clock reading \<open>now\<close>. The result is \<open>Inl\<close> for the error thrown
  again, \<open>Inr None\<close> for \<^verbatim>\<open>null\<close>, \<open>Inr (Some response)\<close> for the created order.
  \<^verbatim>\<open>items\<close> and \<^verbatim>\<open>totalPrice\<close> are those of the render the hook closed over.
\<close>

definition processCheckout ::
  "int \<Rightarrow> server \<Rightarrow> address \<Rightarrow> payment_method \<Rightarrow> app \<Rightarrow> (string + json option) \<times> app" where
  "processCheckout now srv shippingAddress paymentMethod s0 =
     (let cartItems = items s0
      in case refreshToken now srv (s0\<lparr>isProcessing := True\<rparr>) of
           (tokenRefreshed, s1) \<Rightarrow>
             if \<not> tokenRefreshed then
               (Inr None,
                s1\<lparr>toasts := toasts s1 @
                      [Error ''Your session has expired. Please sign in again to continue.''],
                   navigations := navigations s1 @ [''/cart''],
                   isProcessing := False\<rparr>)
             else if cartItems = [] then
               (Inr None,
                s1\<lparr>toasts := toasts s1 @
                      [Error ''Your cart is empty. Please add items before checking out.''],
                   navigations := navigations s1 @ [''/cart''],
                   isProcessing := False\<rparr>)
             else
               (case orderItems cartItems of
                  Inl e \<Rightarrow> (Inl e, (checkout_catch e s1)\<lparr>isProcessing := False\<rparr>)
                | Inr ls \<Rightarrow>
                    (let orderData = \<lparr>order_items = ls, total_amount = totalPrice cartItems,
                                      order_payment_method = paymentMethod,
                                      shipping = shippingAddress\<rparr>
                     in case request srv (CreateOrder orderData) s1 of
                          (Inl e, s2) \<Rightarrow> (Inl e, (checkout_catch e s2)\<lparr>isProcessing := False\<rparr>)
                        | (Inr response, s2) \<Rightarrow>
                            (let s3 = s2\<lparr>toasts := toasts s2 @
                                         [Success (''Order #'' @
                                            (case json_field ''id'' response of
                                               None \<Rightarrow> ''undefined'' | Some i \<Rightarrow> i) @
                                            '' placed successfully!'')]\<rparr>;
                                 s4 = clearCart s3
                             in (Inr (Some response),
                                 s4\<lparr>navigations := navigations s4 @ [''/''],
                                    isProcessing := False\<rparr>)))))"

fun is_order_call :: "api_call \<Rightarrow> bool" where
  "is_order_call (CreateOrder d) = True"
| "is_order_call _ = False"

section \<open>Concrete products and carts used in the examples\<close>

definition shirt :: product where
  "shirt = \<lparr>product_id = ''A'', product_name = ''Shirt'', price = 20\<rparr>"

definition cap :: product where
  "cap = \<lparr>product_id = ''B'', product_name = ''Cap'', price = 5\<rparr>"

definition socks :: product where
  "socks = \<lparr>product_id = ''C'', product_name = ''Socks'', price = 3\<rparr>"

definition guest_cart :: cart where
  "guest_cart = [\<lparr>product = shirt, quantity = 2\<rparr>, \<lparr>product = cap, quantity = 1\<rparr>]"

definition server_cart :: cart where
  "server_cart = [\<lparr>product = cap, quantity = 3\<rparr>, \<lparr>product = socks, quantity = 1\<rparr>]"

section \<open>Auxiliary notions for the proofs about \<^verbatim>\<open>Map\<close>s of cart lines\<close>

text \<open>
  A map of cart lines is \<open>keyed\<close> when its keys are distinct and every entry is stored
  under the id of its own product.
\<close>

definition keyed :: "(string, cart_item) js_map \<Rightarrow> bool" where
  "keyed m = (distinct (map fst m) \<and> list_all (\<lambda>(k, v). item_id v = k) m)"

definition map_quantities :: "(string, cart_item) js_map \<Rightarrow> string \<rightharpoonup> int" where
  "map_quantities m k = map_option quantity (map_of m k)"

text \<open>The body of the second \<^verbatim>\<open>forEach\<close> of \<^verbatim>\<open>mergeCarts\<close>, named.\<close>

definition merge_step :: "(string, cart_item) js_map \<Rightarrow> cart_item \<Rightarrow> (string, cart_item) js_map" where
  "merge_step m item =
     (if Map_has (item_id item) m
      then AList.map_entry (item_id item) (\<lambda>e. e\<lparr>quantity := quantity e + quantity item\<rparr>) m
      else Map_set (item_id item) item m)"

section \<open>Concrete states and backends used in the examples\<close>

text \<open>
  A signed-in session after the initial load, with an empty cart and nothing in flight; a
  backend that accepts every call; a backend that answers every call with status 401 and a
  JSON error body.
\<close>

definition signed_in :: app where
  "signed_in =
     \<lparr>items = [], localStorage = Map.empty, toasts = [],
      lastSyncedItems = [], syncing = False, initialLoad = False, debounceTimeout = None,
      user = Some (JsonObject [(''id'', ''u1'')]), lastRefreshAttempt = 0, refreshTimer = True,
      authTokens = Tokens (Some ''access-1'') (Some ''refresh-1''),
      storedUser = Some (JsonObject [(''id'', ''u1'')]),
      isProcessing = False, navigations = [], requests = []\<rparr>"

definition ok_server :: server where
  "ok_server log c = Response 200 (Parsed (JsonObject []))"

definition unauthorized_server :: server where
  "unauthorized_server log c =
     Response 401 (Parsed (JsonObject [(''detail'', ''Given token not valid for any token type'')]))"

definition baseline_A1 :: cart where
  "baseline_A1 = [\<lparr>product = shirt, quantity = 1\<rparr>]"

definition current_A1_B2 :: cart where
  "current_A1_B2 = [\<lparr>product = shirt, quantity = 1\<rparr>, \<lparr>product = cap, quantity = 2\<rparr>]"

section \<open>Auxiliary notions for the proofs about the sync cycle\<close>

text \<open>The calls the two loops of a cycle send when no call is rejected.\<close>

definition removal_calls :: "(string, cart_item) js_map \<Rightarrow> (string \<times> cart_item) list \<Rightarrow> api_call list" where
  "removal_calls currentMap entries =
     map RemoveItemFromCart (filter (\<lambda>k. \<not> Map_has k currentMap) (map fst entries))"

fun upsert_call :: "(string, cart_item) js_map \<Rightarrow> string \<times> cart_item \<Rightarrow> api_call option" where
  "upsert_call lastMap (productId, currentItem) =
     (case Map_get productId lastMap of
        None \<Rightarrow> Some (AddItemToCart productId (quantity currentItem))
      | Some lastItem \<Rightarrow>
          if quantity lastItem \<noteq> quantity currentItem
          then Some (UpdateItemQuantity productId (quantity currentItem))
          else None)"

definition upsert_calls :: "(string, cart_item) js_map \<Rightarrow> (string \<times> cart_item) list \<Rightarrow> api_call list" where
  "upsert_calls lastMap entries = List.map_filter (upsert_call lastMap) entries"

text \<open>A backend whose every \<^verbatim>\<open>fetch\<close> rejects with the message \<open>Unauthorized\<close>.\<close>

definition rejecting_server :: server where
  "rejecting_server log c = NetworkError ''Unauthorized''"

text \<open>
  Stand-ins for \<^verbatim>\<open>JSON.parse\<close> and \<^verbatim>\<open>JSON.stringify\<close> on the snapshot texts of the
  examples: the texts of the empty cart, of the guest cart, of \<^verbatim>\<open>null\<close> and of a number
  are parsed, everything else is rejected, the empty string included (as \<^verbatim>\<open>JSON.parse\<close>
  does).
\<close>

definition demo_parse :: "string \<Rightarrow> js_value option" where
  "demo_parse snapshot =
     (if snapshot = ''[]'' then Some (CartArray [])
      else if snapshot = ''[guest cart]'' then Some (CartArray guest_cart)
      else if snapshot = ''null'' then Some Null
      else if snapshot = ''7'' then Some NonArray
      else None)"

definition demo_stringify :: "cart \<Rightarrow> string" where
  "demo_stringify c = (if c = [] then ''[]'' else if c = guest_cart then ''[guest cart]'' else ''[...]'')"

text \<open>
  A user who has just signed in with the guest cart still in \<^verbatim>\<open>localStorage\<close> and the merge
  flag unset; the same user with \<^verbatim>\<open>null\<close> and with a number as the stored snapshot; a backend whose cart fetch
  fails while every other call succeeds; a backend that cannot be reached; a backend that
  refuses every call with status 500 and a JSON error body.
\<close>

definition returning_guest :: app where
  "returning_guest = signed_in\<lparr>localStorage := [''cart'' \<mapsto> ''[guest cart]''], initialLoad := True\<rparr>"

definition null_snapshot_user :: app where
  "null_snapshot_user = signed_in\<lparr>localStorage := [''cart'' \<mapsto> ''null''], initialLoad := True\<rparr>"

definition number_snapshot_user :: app where
  "number_snapshot_user = signed_in\<lparr>localStorage := [''cart'' \<mapsto> ''7''], initialLoad := True\<rparr>"

definition fetch_fails_server :: server where
  "fetch_fails_server log c =
     (case c of
        GetUserCart \<Rightarrow> NetworkError ''Failed to fetch''
      | _ \<Rightarrow> Response 200 (Parsed (JsonObject [])))"

definition offline_server :: server where
  "offline_server log c = NetworkError ''Failed to fetch''"

definition refusing_server :: server where
  "refusing_server log c =
     (case c of
        GetUserCart \<Rightarrow> Response 200 (Parsed (JsonArray server_cart))
      | _ \<Rightarrow> Response 500 (Parsed (JsonObject [(''detail'', ''Internal server error'')])))"

text \<open>A signed-out session with a corrupt snapshot.\<close>

definition signed_out :: app where
  "signed_out = signed_in\<lparr>user := None, authTokens := NoTokens, storedUser := None,
                           refreshTimer := False, initialLoad := True\<rparr>"

definition corrupt_guest :: app where
  "corrupt_guest = signed_out\<lparr>localStorage := [''cart'' \<mapsto> ''{not json'']\<rparr>"

text \<open>The calls of the session refresh: the profile fetch and the token refresh.\<close>

fun is_session_call :: "api_call \<Rightarrow> bool" where
  "is_session_call GetUserProfile = True"
| "is_session_call (RefreshToken t) = True"
| "is_session_call _ = False"

text \<open>
  A session whose last recorded refresh attempt was at clock reading 1000 and whose access
  token is gone; a shipping address.
\<close>

definition recently_refreshed :: app where
  "recently_refreshed = signed_in\<lparr>lastRefreshAttempt := 1000, authTokens := Tokens None (Some ''refresh-1'')\<rparr>"

definition home_address :: address where
  "home_address = \<lparr>firstName = ''Ada'', lastName = ''L'', street = ''1 Main St'', city = ''Cebu'',
                    state = ''Cebu'', zip = ''6000'', phone = ''555''\<rparr>"

section \<open>CartStore: properties\<close>

lemma find_None_item_id:
  "find (\<lambda>item. item_id item = k) c = None \<longleftrightarrow> k \<notin> set (map item_id c)"
  by (induction c) auto

lemma map_requantify_ids:
  "map item_id (map (\<lambda>item. if item_id item = k then item\<lparr>quantity := f item\<rparr> else item) c)
     = map item_id c"
  by (induction c) (auto simp: item_id_def)

lemma ids_unique_addItem: "ids_unique (items s) \<Longrightarrow> ids_unique (items (addItem p q s))"
proof (cases "find (\<lambda>item. item_id item = product_id p) (items s)")
  case None
  assume u: "ids_unique (items s)"
  from None have "product_id p \<notin> set (map item_id (items s))"
    using find_None_item_id [of "product_id p" "items s"] by simp
  with u None show ?thesis
    by (simp add: addItem_def ids_unique_def item_id_def)
next
  case (Some existingItem)
  assume "ids_unique (items s)"
  with Some show ?thesis
    by (simp add: addItem_def ids_unique_def map_requantify_ids del: map_map)
qed

lemma ids_unique_removeItem: "ids_unique (items s) \<Longrightarrow> ids_unique (items (removeItem k s))"
  by (simp add: removeItem_def ids_unique_def Let_def distinct_map_filter)

lemma ids_unique_updateQuantity:
  "ids_unique (items s) \<Longrightarrow> ids_unique (items (updateQuantity k q s))"
  using ids_unique_removeItem [of s k]
  by (simp add: updateQuantity_def ids_unique_def map_requantify_ids del: map_map)

lemma ids_unique_apply_op: "ids_unique (items s) \<Longrightarrow> ids_unique (items (apply_op s op))"
  by (cases op)
     (simp_all add: ids_unique_addItem ids_unique_removeItem ids_unique_updateQuantity,
      simp add: clearCart_def ids_unique_def)

lemma ids_unique_run_ops: "ids_unique (items s) \<Longrightarrow> ids_unique (items (run_ops ops s))"
  unfolding run_ops_def
  by (induction ops arbitrary: s) (simp_all add: ids_unique_apply_op)

lemma quantities_positive_addItem:
  "1 \<le> q \<Longrightarrow> quantities_positive (items s) \<Longrightarrow> quantities_positive (items (addItem p q s))"
  by (cases "find (\<lambda>item. item_id item = product_id p) (items s)")
     (auto simp: addItem_def quantities_positive_def list_all_iff)

lemma quantities_positive_removeItem:
  "quantities_positive (items s) \<Longrightarrow> quantities_positive (items (removeItem k s))"
  by (auto simp: removeItem_def quantities_positive_def list_all_iff Let_def)

lemma quantities_positive_updateQuantity:
  "quantities_positive (items s) \<Longrightarrow> quantities_positive (items (updateQuantity k q s))"
  using quantities_positive_removeItem [of s k]
  by (auto simp: updateQuantity_def quantities_positive_def list_all_iff)

lemma quantities_positive_apply_op:
  "adds_positive op \<Longrightarrow> quantities_positive (items s)
     \<Longrightarrow> quantities_positive (items (apply_op s op))"
  by (cases op)
     (simp_all add: quantities_positive_addItem quantities_positive_removeItem
        quantities_positive_updateQuantity,
      simp add: clearCart_def quantities_positive_def)

lemma quantities_positive_run_ops:
  "list_all adds_positive ops \<Longrightarrow> quantities_positive (items s)
     \<Longrightarrow> quantities_positive (items (run_ops ops s))"
  unfolding run_ops_def
  by (induction ops arbitrary: s) (simp_all add: quantities_positive_apply_op)

text \<open>
  When every \<^verbatim>\<open>addItem\<close> of a sequence is given a quantity of at least one, the
  invariant holds in every state the sequence reaches from the empty store.
\<close>

lemma cart_invariant_when_adds_positive:
  "list_all adds_positive ops \<Longrightarrow>
     quantities_positive (items (run_ops ops initial_store)) \<and>
     ids_unique (items (run_ops ops initial_store))"
proof
  assume "list_all adds_positive ops"
  moreover have "quantities_positive (items initial_store)"
    by (simp add: initial_store_def quantities_positive_def)
  ultimately show "quantities_positive (items (run_ops ops initial_store))"
    by (rule quantities_positive_run_ops)
next
  have "ids_unique (items initial_store)"
    by (simp add: initial_store_def ids_unique_def)
  then show "ids_unique (items (run_ops ops initial_store))"
    by (rule ids_unique_run_ops)
qed

section \<open>\<^verbatim>\<open>updateQuantity\<close> on an absent id\<close>

text \<open>
  C10. For a quantity of at least one and an id that no line of the cart has,
  \<^verbatim>\<open>updateQuantity\<close> leaves the store as it is: nothing is inserted and no line changes.
\<close>

theorem updateQuantity_absent_id_unchanged:
  "1 \<le> q \<Longrightarrow> productId \<notin> set (map item_id (items s)) \<Longrightarrow> updateQuantity productId q s = s"
proof -
  assume q: "1 \<le> q" and absent: "productId \<notin> set (map item_id (items s))"
  have "map (\<lambda>item. if item_id item = productId then item\<lparr>quantity := q\<rparr> else item) (items s)
          = items s"
    using absent by (intro map_idI) auto
  with q show ?thesis by (simp add: updateQuantity_def)
qed

theorem updateQuantity_absent_id_unchanged_witness:
  "(1::int) \<le> 3 \<and> ''B'' \<notin> set (map item_id (items (addItem shirt 2 initial_store))) \<and>
   updateQuantity ''B'' 3 (addItem shirt 2 initial_store) = addItem shirt 2 initial_store"
proof -
  have a: "''B'' \<notin> set (map item_id (items (addItem shirt 2 initial_store)))"
    by (simp add: addItem_def initial_store_def shirt_def item_id_def)
  have b: "(1::int) \<le> 3" by simp
  from updateQuantity_absent_id_unchanged [OF b a] a show ?thesis by simp
qed

section \<open>The cart invariant and \<^verbatim>\<open>addItem\<close>\<close>

text \<open>
  C1. The invariant (every quantity at least one, one line per product id) does not hold
  in every state the public operations reach: \<^verbatim>\<open>addItem\<close> stores the quantity it is given,
  so \<^verbatim>\<open>addItem(shirt, 0)\<close> on the empty cart yields a line of quantity zero.
\<close>

theorem addItem_accepts_nonpositive_quantity:
  "items (run_ops [AddItem shirt 0] initial_store) = [\<lparr>product = shirt, quantity = 0\<rparr>] \<and>
   \<not> quantities_positive (items (run_ops [AddItem shirt 0] initial_store))"
  by (simp add: run_ops_def addItem_def initial_store_def quantities_positive_def)

section \<open>\<^verbatim>\<open>mergeCarts\<close> is additive\<close>

lemma list_all_update:
  "list_all P m \<Longrightarrow> P (k, v) \<Longrightarrow> list_all P (AList.update k v m)"
  by (induction m) auto

lemma keyed_Map_set: "keyed m \<Longrightarrow> keyed (Map_set (item_id item) item m)"
  by (simp add: keyed_def Map_set_def distinct_update list_all_update)

lemma keyed_map_entry:
  "keyed m \<Longrightarrow> keyed (AList.map_entry k (\<lambda>e. e\<lparr>quantity := g e\<rparr>) m)"
  unfolding keyed_def
proof (intro conjI)
  assume a: "distinct (map fst m) \<and> list_all (\<lambda>(k, v). item_id v = k) m"
  then show "distinct (map fst (AList.map_entry k (\<lambda>e. e\<lparr>quantity := g e\<rparr>) m))"
    by (simp add: distinct_map_entry)
  from a have "list_all (\<lambda>(k, v). item_id v = k) m" by simp
  then show "list_all (\<lambda>(k, v). item_id v = k) (AList.map_entry k (\<lambda>e. e\<lparr>quantity := g e\<rparr>) m)"
    by (induction m) (auto simp: item_id_def)
qed

lemma keyed_merge_step: "keyed m \<Longrightarrow> keyed (merge_step m item)"
  by (simp add: merge_step_def keyed_Map_set keyed_map_entry)

lemma map_quantities_Map_set:
  "map_quantities (Map_set (item_id item) item m) = (map_quantities m)(item_id item \<mapsto> quantity item)"
  by (rule ext) (simp add: map_quantities_def Map_set_def update_conv')

lemma map_quantities_merge_step:
  "map_quantities (merge_step m item) =
     (map_quantities m)(item_id item := additive_merge (map_quantities m (item_id item)) (Some (quantity item)))"
  by (rule ext)
     (auto simp: merge_step_def map_quantities_def Map_set_def Map_has_def update_conv'
        map_of_map_entry additive_merge_def split: option.splits)

lemma keyed_foldl_set:
  "keyed m \<Longrightarrow> keyed (foldl (\<lambda>m item. Map_set (item_id item) item m) m c)"
  by (induction c arbitrary: m) (simp_all add: keyed_Map_set)

lemma keyed_foldl_merge:
  "keyed m \<Longrightarrow> keyed (foldl merge_step m c)"
  by (induction c arbitrary: m) (simp_all add: keyed_merge_step)

lemma cart_quantities_Cons:
  "cart_quantities (item # c) = (cart_quantities c)(item_id item \<mapsto> quantity item)"
  by (simp add: cart_quantities_def)

lemma cart_quantities_None: "cart_quantities c k = None \<longleftrightarrow> k \<notin> set (map item_id c)"
  by (induction c) (auto simp: cart_quantities_def)

lemma map_quantities_foldl_set:
  "ids_unique c \<Longrightarrow>
   map_quantities (foldl (\<lambda>m item. Map_set (item_id item) item m) m c) k =
     (case cart_quantities c k of None \<Rightarrow> map_quantities m k | Some q \<Rightarrow> Some q)"
proof (induction c arbitrary: m)
  case Nil
  show ?case by (simp add: cart_quantities_def)
next
  case (Cons item c)
  from Cons.prems have u: "ids_unique c" and fresh: "item_id item \<notin> set (map item_id c)"
    by (simp_all add: ids_unique_def)
  from fresh have n: "cart_quantities c (item_id item) = None"
    using cart_quantities_None [of c "item_id item"] by simp
  show ?case
    using Cons.IH [OF u, of "Map_set (item_id item) item m"] n
    by (simp add: map_quantities_Map_set cart_quantities_Cons split: option.splits)
qed

lemma map_quantities_foldl_merge:
  "ids_unique c \<Longrightarrow>
   map_quantities (foldl merge_step m c) k = additive_merge (map_quantities m k) (cart_quantities c k)"
proof (induction c arbitrary: m)
  case Nil
  show ?case by (simp add: cart_quantities_def additive_merge_def split: option.splits)
next
  case (Cons item c)
  from Cons.prems have u: "ids_unique c" and fresh: "item_id item \<notin> set (map item_id c)"
    by (simp_all add: ids_unique_def)
  from fresh have n: "cart_quantities c (item_id item) = None"
    using cart_quantities_None [of c "item_id item"] by simp
  show ?case
    using Cons.IH [OF u, of "merge_step m item"] n
    by (auto simp: map_quantities_merge_step cart_quantities_Cons additive_merge_def
          split: option.splits)
qed

lemma cart_quantities_Map_values:
  "keyed m \<Longrightarrow> cart_quantities (Map_values m) = map_quantities m"
proof -
  assume "keyed m"
  then have "list_all (\<lambda>(k, v). item_id v = k) m" by (simp add: keyed_def)
  then have "map (\<lambda>item. (item_id item, quantity item)) (map snd m) = map (\<lambda>(k, v). (k, quantity v)) m"
    by (induction m) auto
  then show ?thesis
    by (intro ext) (simp add: cart_quantities_def Map_values_def map_quantities_def map_of_map del: map_map)
qed

lemma ids_Map_values: "keyed m \<Longrightarrow> map item_id (Map_values m) = map fst m"
proof -
  assume "keyed m"
  then have "list_all (\<lambda>(k, v). item_id v = k) m" by (simp add: keyed_def)
  then show ?thesis unfolding Map_values_def by (induction m) auto
qed

lemma mergeCarts_unfold:
  "mergeCarts cartA cartB =
     Map_values (foldl merge_step (foldl (\<lambda>m item. Map_set (item_id item) item m) [] cartA) cartB)"
  by (simp add: mergeCarts_def Let_def merge_step_def [abs_def])

text \<open>
  C6. \<^verbatim>\<open>mergeCarts\<close> is additive: for two carts keyed by product id, the merged cart is
  again keyed by product id, and read as a mapping from id to quantity it holds, for every
  id, the sum of both quantities when both carts have the id, the one quantity when only
  one has it, and nothing when neither has it.
\<close>

theorem mergeCarts_additive:
  assumes "ids_unique cartA" and "ids_unique cartB"
  shows "ids_unique (mergeCarts cartA cartB) \<and>
         cart_quantities (mergeCarts cartA cartB) k
           = additive_merge (cart_quantities cartA k) (cart_quantities cartB k)"
proof -
  let ?base = "foldl (\<lambda>m item. Map_set (item_id item) item m) [] cartA"
  let ?merged = "foldl merge_step ?base cartB"
  have k0: "keyed ?base" by (rule keyed_foldl_set) (simp add: keyed_def)
  have k: "keyed ?merged" using k0 by (simp add: keyed_foldl_merge)
  have q0: "map_quantities ?base k = cart_quantities cartA k"
    using map_quantities_foldl_set [OF assms(1), of "[]" k]
    by (simp add: map_quantities_def split: option.splits)
  have "ids_unique (mergeCarts cartA cartB)"
    using k by (simp add: mergeCarts_unfold ids_unique_def ids_Map_values keyed_def)
  moreover have "cart_quantities (mergeCarts cartA cartB) k
           = additive_merge (cart_quantities cartA k) (cart_quantities cartB k)"
    by (simp add: mergeCarts_unfold cart_quantities_Map_values [OF k]
          map_quantities_foldl_merge [OF assms(2)] q0)
  ultimately show ?thesis ..
qed

theorem mergeCarts_additive_witness:
  "ids_unique guest_cart \<and> ids_unique server_cart \<and>
   ids_unique (mergeCarts guest_cart server_cart) \<and>
   cart_quantities (mergeCarts guest_cart server_cart) ''A'' = Some 2 \<and>
   cart_quantities (mergeCarts guest_cart server_cart) ''B'' = Some 4 \<and>
   cart_quantities (mergeCarts guest_cart server_cart) ''C'' = Some 1 \<and>
   cart_quantities (mergeCarts guest_cart server_cart) ''D'' = None"
proof -
  have g: "ids_unique guest_cart"
    by (simp add: ids_unique_def guest_cart_def item_id_def shirt_def cap_def)
  have s: "ids_unique server_cart"
    by (simp add: ids_unique_def server_cart_def item_id_def socks_def cap_def)
  have q: "cart_quantities guest_cart ''A'' = Some 2" "cart_quantities server_cart ''A'' = None"
          "cart_quantities guest_cart ''B'' = Some 1" "cart_quantities server_cart ''B'' = Some 3"
          "cart_quantities guest_cart ''C'' = None" "cart_quantities server_cart ''C'' = Some 1"
          "cart_quantities guest_cart ''D'' = None" "cart_quantities server_cart ''D'' = None"
    by (simp_all add: cart_quantities_def guest_cart_def server_cart_def item_id_def
          shirt_def cap_def socks_def)
  show ?thesis
    using g s mergeCarts_additive [OF g s, of "''A''"] mergeCarts_additive [OF g s, of "''B''"]
      mergeCarts_additive [OF g s, of "''C''"] mergeCarts_additive [OF g s, of "''D''"]
    by (simp add: q additive_merge_def)
qed

text \<open>
  The example of the specification, evaluated: merging the guest cart \<open>{A:2, B:1}\<close> and the
  server cart \<open>{B:3, C:1}\<close> gives \<open>{A:2, B:4, C:1}\<close>, in either order of the arguments.
\<close>

lemma mergeCarts_example:
  "map (\<lambda>item. (item_id item, quantity item)) (mergeCarts guest_cart server_cart)
     = [(''A'', 2), (''B'', 4), (''C'', 1)]"
  "map (\<lambda>item. (item_id item, quantity item)) (mergeCarts server_cart guest_cart)
     = [(''B'', 4), (''C'', 1), (''A'', 2)]"
  by (simp_all add: mergeCarts_def guest_cart_def server_cart_def Map_set_def Map_has_def
        Map_values_def item_id_def shirt_def cap_def socks_def)

section \<open>The diff sent by a successful sync cycle\<close>

lemma request_accepted:
  "server_accepts_all srv \<Longrightarrow>
     \<exists>body. request srv c s = (Inr body, s\<lparr>requests := requests s @ [c]\<rparr>)"
  by (simp add: request_def server_accepts_all_def)

lemma remove_loop_accepted:
  "server_accepts_all srv \<Longrightarrow>
     remove_loop srv currentMap entries s
       = (Inr (), s\<lparr>requests := requests s @ removal_calls currentMap entries\<rparr>)"
proof (induction entries arbitrary: s)
  case Nil
  show ?case by (simp add: removal_calls_def)
next
  case (Cons entry entries)
  obtain productId lastItem where e: "entry = (productId, lastItem)" by (cases entry)
  from Cons.prems obtain body where
    r: "request srv (RemoveItemFromCart productId) s
          = (Inr body, s\<lparr>requests := requests s @ [RemoveItemFromCart productId]\<rparr>)"
    using request_accepted by blast
  show ?case
    by (simp add: e r Cons.IH [OF Cons.prems] removal_calls_def)
qed

lemma upsert_loop_accepted:
  "server_accepts_all srv \<Longrightarrow>
     upsert_loop srv lastMap entries s
       = (Inr (), s\<lparr>requests := requests s @ upsert_calls lastMap entries\<rparr>)"
proof (induction entries arbitrary: s)
  case Nil
  show ?case by (simp add: upsert_calls_def map_filter_simps)
next
  case (Cons entry entries)
  obtain productId currentItem where e: "entry = (productId, currentItem)" by (cases entry)
  have r: "\<And>c. \<exists>body. request srv c s = (Inr body, s\<lparr>requests := requests s @ [c]\<rparr>)"
    using Cons.prems request_accepted by blast
  show ?case
  proof (cases "Map_get productId lastMap")
    case None
    from r obtain body where
      "request srv (AddItemToCart productId (quantity currentItem)) s
         = (Inr body, s\<lparr>requests := requests s @ [AddItemToCart productId (quantity currentItem)]\<rparr>)"
      by blast
    then show ?thesis
      by (simp add: e None Cons.IH [OF Cons.prems] upsert_calls_def map_filter_simps)
  next
    case (Some lastItem)
    from r obtain body where
      "request srv (UpdateItemQuantity productId (quantity currentItem)) s
         = (Inr body, s\<lparr>requests := requests s @ [UpdateItemQuantity productId (quantity currentItem)]\<rparr>)"
      by blast
    then show ?thesis
      by (simp add: e Some Cons.IH [OF Cons.prems] upsert_calls_def map_filter_simps)
  qed
qed

lemma update_fresh: "k \<notin> fst ` set m \<Longrightarrow> AList.update k v m = m @ [(k, v)]"
  by (induction m) auto

lemma foldl_Map_set_fresh:
  "distinct (map fst m @ map item_id c) \<Longrightarrow>
     foldl (\<lambda>m item. Map_set (item_id item) item m) m c = m @ map (\<lambda>item. (item_id item, item)) c"
proof (induction c arbitrary: m)
  case Nil
  show ?case by simp
next
  case (Cons item c)
  from Cons.prems have fresh: "item_id item \<notin> fst ` set m" by auto
  from Cons.prems have d: "distinct (map fst (m @ [(item_id item, item)]) @ map item_id c)"
    by auto
  show ?case
    using Cons.IH [OF d] by (simp add: Map_set_def update_fresh [OF fresh])
qed

lemma mapByProductId_unique:
  "ids_unique c \<Longrightarrow> mapByProductId c = map (\<lambda>item. (item_id item, item)) c"
  using foldl_Map_set_fresh [of "[]" c] by (simp add: mapByProductId_def ids_unique_def)

lemma map_of_entries_quantity:
  "map_option quantity (map_of (map (\<lambda>item. (item_id item, item)) c) k) = cart_quantities c k"
  by (induction c) (simp_all add: cart_quantities_def)

lemma Map_has_entries:
  "Map_has k (map (\<lambda>item. (item_id item, item)) c) \<longleftrightarrow> cart_quantities c k \<noteq> None"
  using map_of_entries_quantity [of c k, symmetric] by (auto simp: Map_has_def)

lemma count_removal_calls:
  assumes "ids_unique baseline"
  shows "count_list (removal_calls (map (\<lambda>item. (item_id item, item)) current)
                                    (map (\<lambda>item. (item_id item, item)) baseline)) c
           = (case c of RemoveItemFromCart k \<Rightarrow>
                (if cart_quantities baseline k \<noteq> None \<and> cart_quantities current k = None then 1 else 0)
              | _ \<Rightarrow> 0)"
  using assms
proof (induction baseline)
  case Nil
  show ?case by (simp add: removal_calls_def cart_quantities_def split: api_call.splits)
next
  case (Cons item baseline)
  from Cons.prems have u: "ids_unique baseline" and fresh: "item_id item \<notin> set (map item_id baseline)"
    by (simp_all add: ids_unique_def)
  from fresh have n: "cart_quantities baseline (item_id item) = None"
    using cart_quantities_None [of baseline "item_id item"] by simp
  show ?case
    using Cons.IH [OF u] n
    by (auto simp: removal_calls_def Map_has_entries cart_quantities_Cons split: api_call.splits)
qed

lemma count_upsert_calls:
  assumes "ids_unique current"
  shows "count_list (upsert_calls (map (\<lambda>item. (item_id item, item)) baseline)
                                   (map (\<lambda>item. (item_id item, item)) current)) c
           = (case c of
                AddItemToCart k q \<Rightarrow>
                  (if cart_quantities baseline k = None \<and> cart_quantities current k = Some q then 1 else 0)
              | UpdateItemQuantity k q \<Rightarrow>
                  (case cart_quantities baseline k of
                     None \<Rightarrow> 0
                   | Some q0 \<Rightarrow> if cart_quantities current k = Some q \<and> q0 \<noteq> q then 1 else 0)
              | _ \<Rightarrow> 0)"
  using assms
proof (induction current)
  case Nil
  show ?case
    by (simp add: upsert_calls_def map_filter_simps cart_quantities_def split: api_call.splits option.splits)
next
  case (Cons item current)
  from Cons.prems have u: "ids_unique current" and fresh: "item_id item \<notin> set (map item_id current)"
    by (simp_all add: ids_unique_def)
  from fresh have n: "cart_quantities current (item_id item) = None"
    using cart_quantities_None [of current "item_id item"] by simp
  have b: "map_option quantity (Map_get (item_id item) (map (\<lambda>item. (item_id item, item)) baseline))
             = cart_quantities baseline (item_id item)"
    by (simp add: Map_get_def map_of_entries_quantity)
  show ?case
    using Cons.IH [OF u] n b
    by (cases c)
       (auto simp: upsert_calls_def map_filter_simps cart_quantities_Cons split: option.splits)
qed

lemma count_spec:
  assumes "ids_unique baseline" and "ids_unique current"
  shows "count_list (removal_calls (mapByProductId current) (mapByProductId baseline) @
                     upsert_calls (mapByProductId baseline) (mapByProductId current)) c
           = spec_call_count baseline current c"
  by (cases c)
     (simp_all add: mapByProductId_unique assms count_removal_calls count_upsert_calls)

text \<open>
  C5. With a baseline and a current cart both keyed by product id and a backend that
  rejects no call, one sync cycle leaves the earlier log of calls in place and appends to it
  exactly the calls of the specification's diff: each remove-item, add-item and
  update-quantity call occurs as often as \<open>spec_call_count\<close> says (once for the ids the
  diff names, with the current quantity, and never otherwise; no other call at all); and the
  baseline becomes the current cart.
\<close>

theorem sync_cycle_sends_diff:
  assumes "ids_unique (lastSyncedItems s)" and "ids_unique current" and "server_accepts_all srv"
  shows "take (length (requests s)) (requests (syncCartToBackend srv current s)) = requests s \<and>
         count_list (drop (length (requests s)) (requests (syncCartToBackend srv current s))) c
           = spec_call_count (lastSyncedItems s) current c \<and>
         lastSyncedItems (syncCartToBackend srv current s) = current"
proof -
  let ?sent = "removal_calls (mapByProductId current) (mapByProductId (lastSyncedItems s)) @
               upsert_calls (mapByProductId (lastSyncedItems s)) (mapByProductId current)"
  have run: "syncCartToBackend srv current s
               = s\<lparr>requests := requests s @ ?sent, lastSyncedItems := current, syncing := False\<rparr>"
    by (simp add: syncCartToBackend_def Let_def remove_loop_accepted [OF assms(3)]
          upsert_loop_accepted [OF assms(3)])
  show ?thesis
    unfolding run using count_spec [OF assms(1) assms(2), of c] by simp
qed


theorem sync_cycle_sends_diff_witness:
  "ids_unique (lastSyncedItems (signed_in\<lparr>lastSyncedItems := baseline_A1\<rparr>)) \<and>
   ids_unique current_A1_B2 \<and> server_accepts_all ok_server \<and>
   requests (syncCartToBackend ok_server current_A1_B2 (signed_in\<lparr>lastSyncedItems := baseline_A1\<rparr>))
     = [AddItemToCart ''B'' 2] \<and>
   count_list (requests (syncCartToBackend ok_server current_A1_B2
                 (signed_in\<lparr>lastSyncedItems := baseline_A1\<rparr>))) (AddItemToCart ''B'' 2) = 1 \<and>
   lastSyncedItems (syncCartToBackend ok_server current_A1_B2
                      (signed_in\<lparr>lastSyncedItems := baseline_A1\<rparr>)) = current_A1_B2"
proof -
  let ?s = "signed_in\<lparr>lastSyncedItems := baseline_A1\<rparr>"
  have b: "ids_unique (lastSyncedItems ?s)"
    by (simp add: ids_unique_def baseline_A1_def item_id_def shirt_def)
  have c: "ids_unique current_A1_B2"
    by (simp add: ids_unique_def current_A1_B2_def item_id_def shirt_def cap_def)
  have a: "server_accepts_all ok_server"
    by (simp add: server_accepts_all_def ok_server_def)
  have r: "requests ?s = []" by (simp add: signed_in_def)
  have e: "requests (syncCartToBackend ok_server current_A1_B2 ?s) = [AddItemToCart ''B'' 2]"
    by (simp add: syncCartToBackend_def mapByProductId_def Map_set_def Map_has_def Map_get_def
          request_def ok_server_def signed_in_def baseline_A1_def current_A1_B2_def
          item_id_def shirt_def cap_def)
  show ?thesis
    using sync_cycle_sends_diff [OF b c a, of "AddItemToCart ''B'' 2"] a b c e
    by (simp add: r)
qed

section \<open>Two mutations inside the debounce period\<close>

text \<open>
  Once \<^verbatim>\<open>syncingRef\<close> is set and no timer is pending, no event sends a call or moves the
  baseline any more: every later run of the effect returns at the \<^verbatim>\<open>syncingRef\<close> test, and
  only the timer's callback would release it.
\<close>

lemma apply_op_sync_fields:
  fixes s :: app
  shows "syncing (apply_op s op) = syncing s"
    and "requests (apply_op s op) = requests s"
    and "lastSyncedItems (apply_op s op) = lastSyncedItems s"
  by (cases op;
      simp add: addItem_def removeItem_def updateQuantity_def clearCart_def Let_def
        split: option.splits)+

lemma stuck_step:
  assumes "syncing s" and "debounceTimeout s = None"
  shows "syncing (sync_step srv s ev) \<and> debounceTimeout (sync_step srv s ev) = None \<and>
         requests (sync_step srv s ev) = requests s \<and>
         lastSyncedItems (sync_step srv s ev) = lastSyncedItems s"
proof (cases ev)
  case (Mutation op)
  have "sync_effect (sync_cleanup (apply_op s op)) = sync_cleanup (apply_op s op)"
    using assms(1) by (simp add: sync_effect_def sync_cleanup_def apply_op_sync_fields)
  with assms(1) Mutation show ?thesis
    by (simp add: sync_cleanup_def apply_op_sync_fields)
next
  case DebounceElapsed
  with assms show ?thesis by simp
qed

lemma stuck_forever:
  "syncing s \<Longrightarrow> debounceTimeout s = None \<Longrightarrow>
     requests (sync_run srv evs s) = requests s \<and>
     lastSyncedItems (sync_run srv evs s) = lastSyncedItems s"
  unfolding sync_run_def
proof (induction evs arbitrary: s)
  case Nil
  show ?case by simp
next
  case (Cons ev evs)
  from stuck_step [OF Cons.prems, of srv ev] Cons.IH [of "sync_step srv s ev"]
  show ?case by simp
qed

lemma single_mutation_syncs:
  "requests (sync_run ok_server [Mutation (AddItem shirt 1), DebounceElapsed] signed_in)
     = [AddItemToCart ''A'' 1]"
  by (simp add: sync_run_def sync_effect_def sync_cleanup_def isAuthenticated_def addItem_def
        signed_in_def item_id_def shirt_def cap_def syncCartToBackend_def mapByProductId_def
        Map_set_def Map_has_def Map_get_def request_def ok_server_def)


text \<open>
  C2. Two mutations inside the debounce period do not end in one sync cycle for the final
  cart. The effect run after the first mutation sets \<^verbatim>\<open>syncingRef\<close> and arms the timer;
  the cleanup before the second run cancels the timer, and the second run returns at the
  \<^verbatim>\<open>syncingRef\<close> test without arming another. When the period elapses nothing fires: no
  call is sent, the baseline stays empty while the cart holds both items, and
  \<^verbatim>\<open>syncingRef\<close> stays set.
\<close>

theorem second_mutation_cancels_sync:
  "requests (sync_run ok_server [Mutation (AddItem shirt 1), Mutation (AddItem cap 2), DebounceElapsed]
              signed_in) = [] \<and>
   lastSyncedItems (sync_run ok_server
              [Mutation (AddItem shirt 1), Mutation (AddItem cap 2), DebounceElapsed] signed_in) = [] \<and>
   items (sync_run ok_server
              [Mutation (AddItem shirt 1), Mutation (AddItem cap 2), DebounceElapsed] signed_in)
     = [\<lparr>product = shirt, quantity = 1\<rparr>, \<lparr>product = cap, quantity = 2\<rparr>] \<and>
   syncing (sync_run ok_server
              [Mutation (AddItem shirt 1), Mutation (AddItem cap 2), DebounceElapsed] signed_in) \<and>
   debounceTimeout (sync_run ok_server
              [Mutation (AddItem shirt 1), Mutation (AddItem cap 2), DebounceElapsed] signed_in) = None"
  by (simp add: sync_run_def sync_effect_def sync_cleanup_def isAuthenticated_def addItem_def
        signed_in_def item_id_def shirt_def cap_def)

section \<open>An unauthorized response during a sync cycle\<close>

text \<open>
  The \<^verbatim>\<open>catch\<close> handler of the cycle does sign the user out and announce the expired
  session, when a call throws an error whose message contains \<open>Unauthorized\<close>.
\<close>

lemma thrown_unauthorized_signs_out:
  "user (sync_run rejecting_server [Mutation (AddItem shirt 1), DebounceElapsed] signed_in) = None \<and>
   authTokens (sync_run rejecting_server [Mutation (AddItem shirt 1), DebounceElapsed] signed_in)
     = NoTokens \<and>
   toasts (sync_run rejecting_server [Mutation (AddItem shirt 1), DebounceElapsed] signed_in)
     = [Success ''Added Shirt to cart'', Success ''Signed out successfully'',
        Error ''Session expired. Please log in again.''] \<and>
   lastSyncedItems (sync_run rejecting_server [Mutation (AddItem shirt 1), DebounceElapsed] signed_in)
     = []"
  by (simp add: sync_run_def sync_effect_def sync_cleanup_def isAuthenticated_def addItem_def
        signed_in_def item_id_def shirt_def syncCartToBackend_def mapByProductId_def
        Map_set_def Map_has_def Map_get_def request_def rejecting_server_def sync_catch_def
        signOut_def clearAuthState_def Let_def)


text \<open>
  C4. A call of the cycle that is answered with status 401 does not lead to a forced
  logout: \<^verbatim>\<open>apiRequest\<close> only logs the status and returns the parsed body, so nothing is
  thrown and the \<^verbatim>\<open>catch\<close> handler never runs. After the cycle the user and the tokens
  are still in place, the cart is not cleared, no session-expired notification was emitted,
  and the baseline has advanced to the cart the backend refused.
\<close>

theorem unauthorized_response_not_detected:
  "apiRequest (unauthorized_server [] (AddItemToCart ''A'' 1))
     = Inr (JsonObject [(''detail'', ''Given token not valid for any token type'')]) \<and>
   requests (sync_run unauthorized_server [Mutation (AddItem shirt 1), DebounceElapsed] signed_in)
     = [AddItemToCart ''A'' 1] \<and>
   user (sync_run unauthorized_server [Mutation (AddItem shirt 1), DebounceElapsed] signed_in)
     = user signed_in \<and>
   authTokens (sync_run unauthorized_server [Mutation (AddItem shirt 1), DebounceElapsed] signed_in)
     = authTokens signed_in \<and>
   items (sync_run unauthorized_server [Mutation (AddItem shirt 1), DebounceElapsed] signed_in)
     = [\<lparr>product = shirt, quantity = 1\<rparr>] \<and>
   lastSyncedItems (sync_run unauthorized_server [Mutation (AddItem shirt 1), DebounceElapsed] signed_in)
     = [\<lparr>product = shirt, quantity = 1\<rparr>] \<and>
   toasts (sync_run unauthorized_server [Mutation (AddItem shirt 1), DebounceElapsed] signed_in)
     = [Success ''Added Shirt to cart'']"
  by (simp add: sync_run_def sync_effect_def sync_cleanup_def isAuthenticated_def addItem_def
        signed_in_def item_id_def shirt_def syncCartToBackend_def mapByProductId_def
        Map_set_def Map_has_def Map_get_def request_def unauthorized_server_def)

section \<open>The login-time merge of \<^verbatim>\<open>loadCart\<close>\<close>

lemma read_snapshot_keeps_flags:
  "read_snapshot parse s = (localCart, s1) \<Longrightarrow> k \<noteq> ''cart'' \<Longrightarrow> localStorage s1 k = localStorage s k"
  by (auto simp: read_snapshot_def split: option.splits if_splits)

lemma read_snapshot_keeps_rest:
  fixes s :: app
  shows "read_snapshot parse s = (localCart, s1) \<Longrightarrow> user s1 = user s \<and> requests s1 = requests s"
  by (auto simp: read_snapshot_def split: option.splits if_splits)

lemma merge_push_failed:
  "merge_push srv (CartArray guestCart) s1 = (Inl e, s2) \<Longrightarrow>
     localStorage s2 = localStorage s1 \<and> user s2 = user s1 \<and> \<not> mergeCompleted s1 \<and> guestCart \<noteq> []"
  by (auto simp: merge_push_def request_def mergeCompleted_def split: if_splits sum.splits)

lemma merge_push_passed:
  "merge_push srv (CartArray guestCart) s1 = (Inr u, s2) \<Longrightarrow>
     mergeCompleted s2 = (mergeCompleted s1 \<or> guestCart \<noteq> []) \<and> user s2 = user s1 \<and>
     localStorage s2 ''checkoutComplete'' = localStorage s1 ''checkoutComplete''"
  by (auto simp: merge_push_def request_def mergeCompleted_def split: if_splits sum.splits)

lemma fetch_backend_cart_failed:
  "fetch_backend_cart srv s2 = (Inl e, s3) \<Longrightarrow> localStorage s3 = localStorage s2 \<and> user s3 = user s2"
  by (auto simp: fetch_backend_cart_def request_def split: sum.splits json.splits)

lemma next_load_pushes:
  assumes "user t \<noteq> None" and "localStorage t ''checkoutComplete'' \<noteq> Some ''true''"
    and "localStorage t ''cart'' = Some snapshot" and "snapshot \<noteq> []"
    and "parse snapshot = Some (CartArray guestCart)" and "guestCart \<noteq> []"
    and "\<not> mergeCompleted t"
  shows "take 1 (load_requests parse srv t) = [MergeCart guestCart]"
  using assms
  by (auto simp: load_requests_def loadCart_def read_snapshot_def merge_push_def
        fetch_backend_cart_def request_def load_fallback_def isAuthenticated_def
        mergeCompleted_def split: sum.splits json.splits)

lemma next_load_fetches:
  assumes "user t \<noteq> None" and "localStorage t ''checkoutComplete'' \<noteq> Some ''true''"
    and "localStorage t ''cart'' = Some snapshot" and "snapshot \<noteq> []"
    and "parse snapshot = Some (CartArray guestCart)"
    and "mergeCompleted t \<or> guestCart = []"
  shows "take 1 (load_requests parse srv t) = [GetUserCart]"
  using assms
  by (auto simp: load_requests_def loadCart_def read_snapshot_def merge_push_def
        fetch_backend_cart_def request_def load_fallback_def isAuthenticated_def
        mergeCompleted_def split: sum.splits json.splits)

text \<open>
  C3 (as amended). In the authenticated branch of \<^verbatim>\<open>loadCart\<close>, with a local cart read from
  the snapshot and a snapshot format that survives the write-through:
  when the merge push raises an error (the request is rejected or its answer is not JSON),
  the local cart becomes both the cart and the sync baseline, the merge flag is not set,
  and the next load, from the state left by the following render, pushes the merge again;
  when the push succeeds or is skipped and the fetch of the backend cart raises an error or
  answers with something that is not an array, the local cart again becomes both, the merge
  flag is set exactly when it was set before or the push ran, and the next load does not
  push again but starts with the fetch. A push that the backend refuses with an error
  status and a JSON body is not raised by \<^verbatim>\<open>apiRequest\<close> and is not covered here.
\<close>

theorem loadCart_failure_keeps_local_cart:
  assumes "localStorage s ''checkoutComplete'' \<noteq> Some ''true''" and "user s \<noteq> None"
    and "read_snapshot parse s = (CartArray localCart, s1)"
    and "parse (stringify localCart) = Some (CartArray localCart)"
    and "stringify localCart \<noteq> []"
  shows "(merge_push srv (CartArray localCart) s1 = (Inl e, s2) \<longrightarrow>
            adopted (loadCart parse srv s) = CartArray localCart \<and>
            \<not> mergeCompleted (after (loadCart parse srv s)) \<and>
            (\<exists>t. next_render stringify (logout_effect (loadCart parse srv s)) = Inr t \<and>
                 items t = localCart \<and> lastSyncedItems t = localCart \<and>
                 \<not> mergeCompleted t \<and>
                 take 1 (load_requests parse srv' t) = [MergeCart localCart])) \<and>
         (merge_push srv (CartArray localCart) s1 = (Inr u, s2) \<and>
          fetch_backend_cart srv s2 = (Inl e, s3) \<longrightarrow>
            adopted (loadCart parse srv s) = CartArray localCart \<and>
            mergeCompleted (after (loadCart parse srv s)) = (mergeCompleted s \<or> localCart \<noteq> []) \<and>
            (\<exists>t. next_render stringify (logout_effect (loadCart parse srv s)) = Inr t \<and>
                 items t = localCart \<and> lastSyncedItems t = localCart \<and>
                 mergeCompleted t = (mergeCompleted s \<or> localCart \<noteq> []) \<and>
                 take 1 (load_requests parse srv' t) = [GetUserCart]))"
proof (intro conjI impI)
  have flag: "mergeCompleted s1 = mergeCompleted s"
    using read_snapshot_keeps_flags [OF assms(3), of "''cartMerged''"]
    by (simp add: mergeCompleted_def)
  have done1: "localStorage s1 ''checkoutComplete'' \<noteq> Some ''true''"
    using read_snapshot_keeps_flags [OF assms(3), of "''checkoutComplete''"] assms(1) by simp
  have user1: "user s1 \<noteq> None"
    using read_snapshot_keeps_rest [OF assms(3)] assms(2) by simp
  {
    assume push: "merge_push srv (CartArray localCart) s1 = (Inl e, s2)"
    then have run: "loadCart parse srv s = load_fallback (CartArray localCart) s2"
      using assms(1-3) by (simp add: loadCart_def isAuthenticated_def)
    from merge_push_failed [OF push] have
      kept: "localStorage s2 = localStorage s1" and u2: "user s2 \<noteq> None"
      and unset: "\<not> mergeCompleted s1" and ne: "localCart \<noteq> []"
      using user1 by simp_all
    show "adopted (loadCart parse srv s) = CartArray localCart"
      by (simp add: run load_fallback_def)
    show "\<not> mergeCompleted (after (loadCart parse srv s))"
      using unset kept by (simp add: run load_fallback_def mergeCompleted_def)
    let ?t = "write_through stringify
                (s2\<lparr>initialLoad := False, items := localCart, lastSyncedItems := localCart\<rparr>)"
    have nr: "next_render stringify (logout_effect (loadCart parse srv s)) = Inr ?t"
      using u2 by (simp add: run load_fallback_def logout_effect_def next_render_def
            isAuthenticated_def)
    have t: "user ?t \<noteq> None" "localStorage ?t ''checkoutComplete'' \<noteq> Some ''true''"
            "localStorage ?t ''cart'' = Some (stringify localCart)" "\<not> mergeCompleted ?t"
      using u2 done1 unset kept by (simp_all add: write_through_def mergeCompleted_def)
    have "take 1 (load_requests parse srv' ?t) = [MergeCart localCart]"
      by (rule next_load_pushes [where parse = parse and snapshot = "stringify localCart",
            OF t(1) t(2) t(3) assms(5) assms(4) ne t(4)])
    with nr t(4)
    show "\<exists>t. next_render stringify (logout_effect (loadCart parse srv s)) = Inr t \<and>
               items t = localCart \<and> lastSyncedItems t = localCart \<and> \<not> mergeCompleted t \<and>
               take 1 (load_requests parse srv' t) = [MergeCart localCart]"
      by (intro exI [of _ ?t]) (simp add: write_through_def)
  }
  {
    assume both: "merge_push srv (CartArray localCart) s1 = (Inr u, s2) \<and>
                  fetch_backend_cart srv s2 = (Inl e, s3)"
    then have run: "loadCart parse srv s = load_fallback (CartArray localCart) s3"
      using assms(1-3) by (simp add: loadCart_def isAuthenticated_def)
    from both merge_push_passed [of srv localCart s1 u s2] fetch_backend_cart_failed [of srv s2 e s3]
    have m3: "mergeCompleted s3 = (mergeCompleted s \<or> localCart \<noteq> [])"
      and u3: "user s3 \<noteq> None"
      and d3: "localStorage s3 ''checkoutComplete'' \<noteq> Some ''true''"
      using flag user1 done1 by (simp_all add: mergeCompleted_def)
    show "adopted (loadCart parse srv s) = CartArray localCart"
      by (simp add: run load_fallback_def)
    show "mergeCompleted (after (loadCart parse srv s)) = (mergeCompleted s \<or> localCart \<noteq> [])"
      using m3 by (simp add: run load_fallback_def mergeCompleted_def)
    let ?t = "write_through stringify
                (s3\<lparr>initialLoad := False, items := localCart, lastSyncedItems := localCart\<rparr>)"
    have nr: "next_render stringify (logout_effect (loadCart parse srv s)) = Inr ?t"
      using u3 by (simp add: run load_fallback_def logout_effect_def next_render_def
            isAuthenticated_def)
    have t: "user ?t \<noteq> None" "localStorage ?t ''checkoutComplete'' \<noteq> Some ''true''"
            "localStorage ?t ''cart'' = Some (stringify localCart)"
            "mergeCompleted ?t = (mergeCompleted s \<or> localCart \<noteq> [])"
      using u3 d3 m3 by (simp_all add: write_through_def mergeCompleted_def)
    have skip: "mergeCompleted ?t \<or> localCart = []"
      using t(4) by blast
    have "take 1 (load_requests parse srv' ?t) = [GetUserCart]"
      by (rule next_load_fetches [where parse = parse and snapshot = "stringify localCart",
            OF t(1) t(2) t(3) assms(5) assms(4) skip])
    with nr t(4)
    show "\<exists>t. next_render stringify (logout_effect (loadCart parse srv s)) = Inr t \<and>
               items t = localCart \<and> lastSyncedItems t = localCart \<and>
               mergeCompleted t = (mergeCompleted s \<or> localCart \<noteq> []) \<and>
               take 1 (load_requests parse srv' t) = [GetUserCart]"
      by (intro exI [of _ ?t]) (simp add: write_through_def)
  }
qed

lemma returning_guest_snapshot:
  "read_snapshot demo_parse returning_guest = (CartArray guest_cart, returning_guest)"
  by (simp add: read_snapshot_def returning_guest_def demo_parse_def)

lemma demo_round_trip:
  "demo_parse (demo_stringify guest_cart) = Some (CartArray guest_cart)"
  "demo_stringify guest_cart \<noteq> []"
  by (simp_all add: demo_parse_def demo_stringify_def guest_cart_def)

theorem loadCart_failure_keeps_local_cart_witness:
  "localStorage returning_guest ''checkoutComplete'' \<noteq> Some ''true'' \<and>
   user returning_guest \<noteq> None \<and>
   read_snapshot demo_parse returning_guest = (CartArray guest_cart, returning_guest) \<and>
   demo_parse (demo_stringify guest_cart) = Some (CartArray guest_cart) \<and>
   demo_stringify guest_cart \<noteq> [] \<and>
   merge_push offline_server (CartArray guest_cart) returning_guest
     = (Inl ''Failed to fetch'', snd (merge_push offline_server (CartArray guest_cart) returning_guest)) \<and>
   adopted (loadCart demo_parse offline_server returning_guest) = CartArray guest_cart \<and>
   \<not> mergeCompleted (after (loadCart demo_parse offline_server returning_guest)) \<and>
   (\<exists>t. next_render demo_stringify (logout_effect (loadCart demo_parse offline_server returning_guest))
          = Inr t \<and>
        items t = guest_cart \<and> lastSyncedItems t = guest_cart \<and> \<not> mergeCompleted t \<and>
        take 1 (load_requests demo_parse ok_server t) = [MergeCart guest_cart]) \<and>
   merge_push fetch_fails_server (CartArray guest_cart) returning_guest
     = (Inr (), snd (merge_push fetch_fails_server (CartArray guest_cart) returning_guest)) \<and>
   fetch_backend_cart fetch_fails_server
       (snd (merge_push fetch_fails_server (CartArray guest_cart) returning_guest))
     = (Inl ''Failed to fetch'',
        snd (fetch_backend_cart fetch_fails_server
               (snd (merge_push fetch_fails_server (CartArray guest_cart) returning_guest)))) \<and>
   adopted (loadCart demo_parse fetch_fails_server returning_guest) = CartArray guest_cart \<and>
   mergeCompleted (after (loadCart demo_parse fetch_fails_server returning_guest))
     = (mergeCompleted returning_guest \<or> guest_cart \<noteq> []) \<and>
   (\<exists>t. next_render demo_stringify (logout_effect (loadCart demo_parse fetch_fails_server returning_guest))
          = Inr t \<and>
        items t = guest_cart \<and> lastSyncedItems t = guest_cart \<and>
        mergeCompleted t = (mergeCompleted returning_guest \<or> guest_cart \<noteq> []) \<and>
        take 1 (load_requests demo_parse ok_server t) = [GetUserCart])"
proof -
  have h1: "localStorage returning_guest ''checkoutComplete'' \<noteq> Some ''true''"
    by (simp add: returning_guest_def)
  have h2: "user returning_guest \<noteq> None"
    by (simp add: returning_guest_def signed_in_def)
  note h3 = returning_guest_snapshot
  note h4 = demo_round_trip(1)
  note h5 = demo_round_trip(2)
  have ne: "guest_cart \<noteq> []" by (simp add: guest_cart_def)
  have nf: "localStorage returning_guest ''cartMerged'' \<noteq> Some ''true''"
    by (simp add: returning_guest_def)
  have p1: "merge_push offline_server (CartArray guest_cart) returning_guest
              = (Inl ''Failed to fetch'',
                 snd (merge_push offline_server (CartArray guest_cart) returning_guest))"
    using ne nf by (simp add: merge_push_def request_def offline_server_def)
  have p2: "merge_push fetch_fails_server (CartArray guest_cart) returning_guest
              = (Inr (), snd (merge_push fetch_fails_server (CartArray guest_cart) returning_guest))"
    using ne nf by (simp add: merge_push_def request_def fetch_fails_server_def)
  have f2: "fetch_backend_cart fetch_fails_server
              (snd (merge_push fetch_fails_server (CartArray guest_cart) returning_guest))
              = (Inl ''Failed to fetch'',
                 snd (fetch_backend_cart fetch_fails_server
                        (snd (merge_push fetch_fails_server (CartArray guest_cart) returning_guest))))"
    by (simp add: fetch_backend_cart_def request_def fetch_fails_server_def)
  from loadCart_failure_keeps_local_cart [where parse = demo_parse and stringify = demo_stringify
         and srv = offline_server and e = "''Failed to fetch''"
         and ?s2.0 = "snd (merge_push offline_server (CartArray guest_cart) returning_guest)"
         and srv' = ok_server, OF h1 h2 h3 h4 h5]
       p1
  have a: "adopted (loadCart demo_parse offline_server returning_guest) = CartArray guest_cart \<and>
           \<not> mergeCompleted (after (loadCart demo_parse offline_server returning_guest)) \<and>
           (\<exists>t. next_render demo_stringify
                   (logout_effect (loadCart demo_parse offline_server returning_guest)) = Inr t \<and>
                items t = guest_cart \<and> lastSyncedItems t = guest_cart \<and> \<not> mergeCompleted t \<and>
                take 1 (load_requests demo_parse ok_server t) = [MergeCart guest_cart])"
    by blast
  from loadCart_failure_keeps_local_cart [where parse = demo_parse and stringify = demo_stringify
         and srv = fetch_fails_server and e = "''Failed to fetch''"
         and ?s2.0 = "snd (merge_push fetch_fails_server (CartArray guest_cart) returning_guest)"
         and u = "()"
         and ?s3.0 = "snd (fetch_backend_cart fetch_fails_server
                 (snd (merge_push fetch_fails_server (CartArray guest_cart) returning_guest)))"
         and srv' = ok_server, OF h1 h2 h3 h4 h5]
       p2 f2
  have b: "adopted (loadCart demo_parse fetch_fails_server returning_guest) = CartArray guest_cart \<and>
           mergeCompleted (after (loadCart demo_parse fetch_fails_server returning_guest))
             = (mergeCompleted returning_guest \<or> guest_cart \<noteq> []) \<and>
           (\<exists>t. next_render demo_stringify
                   (logout_effect (loadCart demo_parse fetch_fails_server returning_guest)) = Inr t \<and>
                items t = guest_cart \<and> lastSyncedItems t = guest_cart \<and>
                mergeCompleted t = (mergeCompleted returning_guest \<or> guest_cart \<noteq> []) \<and>
                take 1 (load_requests demo_parse ok_server t) = [GetUserCart])"
    by blast
  from h1 h2 h3 h4 h5 p1 p2 f2 a b show ?thesis by blast
qed

text \<open>
  The claim as stated fails when the push succeeds and the fetch fails: the local cart is
  kept, and the merge flag is set.
\<close>

theorem fetch_failure_leaves_flag_set:
  "mergeCompleted (after (loadCart demo_parse fetch_fails_server returning_guest)) \<and>
   adopted (loadCart demo_parse fetch_fails_server returning_guest) = CartArray guest_cart \<and>
   requests (after (loadCart demo_parse fetch_fails_server returning_guest))
     = [MergeCart guest_cart, GetUserCart]"
  by (simp add: loadCart_def read_snapshot_def demo_parse_def merge_push_def
        fetch_backend_cart_def request_def fetch_fails_server_def load_fallback_def
        mergeCompleted_def isAuthenticated_def returning_guest_def signed_in_def guest_cart_def)

text \<open>
  The case left out above: the backend refuses the push with status 500 and a JSON body.
  \<^verbatim>\<open>apiRequest\<close> returns that body, so \<^verbatim>\<open>loadCart\<close> sets the merge flag, adopts the cart it
  fetches and removes the snapshot; the guest cart is gone and will not be pushed again.
  This is the defect of the unauthorized response during a sync cycle, met in the load.
\<close>

lemma refused_push_taken_as_success:
  "apiRequest (refusing_server [] (MergeCart guest_cart))
     = Inr (JsonObject [(''detail'', ''Internal server error'')]) \<and>
   adopted (loadCart demo_parse refusing_server returning_guest) = CartArray server_cart \<and>
   mergeCompleted (after (loadCart demo_parse refusing_server returning_guest)) \<and>
   localStorage (after (loadCart demo_parse refusing_server returning_guest)) ''cart'' = None \<and>
   requests (after (loadCart demo_parse refusing_server returning_guest))
     = [MergeCart guest_cart, GetUserCart]"
  by (simp add: loadCart_def read_snapshot_def demo_parse_def merge_push_def
        fetch_backend_cart_def request_def refusing_server_def load_fallback_def
        mergeCompleted_def isAuthenticated_def returning_guest_def signed_in_def guest_cart_def)

section \<open>Reading the persisted snapshot\<close>

text \<open>
  The branches of the snapshot read: an absent snapshot and the empty string give the empty
  cart and leave the storage alone; a non-empty snapshot that does not parse gives the empty
  cart and is removed from the storage; one that parses gives the parsed value, whatever
  it is. No branch raises.
\<close>

lemma read_snapshot_outcomes:
  "(localStorage s ''cart'' = None \<or> localStorage s ''cart'' = Some [] \<longrightarrow>
      read_snapshot parse s = (CartArray [], s)) \<and>
   (localStorage s ''cart'' = Some snapshot \<and> snapshot \<noteq> [] \<and> parse snapshot = None \<longrightarrow>
      read_snapshot parse s
        = (CartArray [], s\<lparr>localStorage := (localStorage s)(''cart'' := None)\<rparr>)) \<and>
   (localStorage s ''cart'' = Some snapshot \<and> snapshot \<noteq> [] \<and> parse snapshot = Some v \<longrightarrow>
      read_snapshot parse s = (v, s))"
  by (auto simp: read_snapshot_def split: option.splits prod.splits)

lemma corrupt_snapshot_discarded:
  "read_snapshot demo_parse corrupt_guest
     = (CartArray [], corrupt_guest\<lparr>localStorage := (localStorage corrupt_guest)(''cart'' := None)\<rparr>)"
  by (simp add: read_snapshot_def corrupt_guest_def demo_parse_def)


text \<open>
  For a signed-out user the logout effect of the same commit has the last word: the cart
  the next render sees is empty, whatever the snapshot held.
\<close>

lemma signed_out_commit_adopts_empty:
  "user s = None \<Longrightarrow> adopted (logout_effect (loadCart parse srv s)) = CartArray []"
  by (auto simp: logout_effect_def loadCart_def read_snapshot_def isAuthenticated_def Let_def
        split: option.splits prod.splits)

text \<open>
  C7. Loading does not yield a cart for every stored snapshot. For a signed-in user whose
  snapshot is the text \<^verbatim>\<open>null\<close>, which is valid JSON, the parse succeeds and the reset of a
  corrupt snapshot does not run; \<^verbatim>\<open>localCart.length\<close> then throws inside the \<^verbatim>\<open>try\<close> of the
  authenticated branch, before any request, and the \<^verbatim>\<open>catch\<close> handler passes
  \<^verbatim>\<open>null\<close> to \<^verbatim>\<open>setItems\<close> and to the baseline. The logout effect of the same commit
  leaves that as it is, and the next render throws at \<^verbatim>\<open>items.reduce\<close>. This holds for
  every backend and every \<^verbatim>\<open>JSON.stringify\<close>.
\<close>

theorem null_snapshot_breaks_render:
  "localStorage null_snapshot_user ''cart'' = Some ''null'' \<and>
   demo_parse ''null'' = Some Null \<and>
   adopted (loadCart demo_parse srv null_snapshot_user) = Null \<and>
   requests (after (loadCart demo_parse srv null_snapshot_user)) = [] \<and>
   logout_effect (loadCart demo_parse srv null_snapshot_user)
     = loadCart demo_parse srv null_snapshot_user \<and>
   next_render stringify (logout_effect (loadCart demo_parse srv null_snapshot_user))
     = Inl ''items is null''"
  by (simp add: loadCart_def read_snapshot_def demo_parse_def merge_push_def load_fallback_def
        logout_effect_def next_render_def isAuthenticated_def null_snapshot_user_def
        signed_in_def)

text \<open>
  A snapshot that is a number (or an object) does the same when the fetch fails.
\<close>

lemma number_snapshot_breaks_render:
  "adopted (loadCart demo_parse offline_server number_snapshot_user) = NonArray \<and>
   next_render stringify (logout_effect (loadCart demo_parse offline_server number_snapshot_user))
     = Inl ''items.reduce is not a function''"
  by (simp add: loadCart_def read_snapshot_def demo_parse_def merge_push_def load_fallback_def
        fetch_backend_cart_def request_def offline_server_def
        logout_effect_def next_render_def isAuthenticated_def number_snapshot_user_def
        signed_in_def)

section \<open>The rate limit of \<^verbatim>\<open>refreshToken\<close>\<close>

lemma clearAuthState_fields [simp]:
  "requests (clearAuthState s) = requests s"
  "lastRefreshAttempt (clearAuthState s) = lastRefreshAttempt s"
  "items (clearAuthState s) = items s"
  "toasts (clearAuthState s) = toasts s"
  "localStorage (clearAuthState s) = localStorage s"
  "navigations (clearAuthState s) = navigations s"
  by (simp_all add: clearAuthState_def)

lemma request_fields:
  "request srv c s = (r, s') \<Longrightarrow>
     requests s' = requests s @ [c] \<and> lastRefreshAttempt s' = lastRefreshAttempt s \<and>
     items s' = items s \<and> toasts s' = toasts s \<and> localStorage s' = localStorage s \<and>
     navigations s' = navigations s"
  by (auto simp: request_def)

lemma attemptTokenRefresh_fields:
  assumes "attemptTokenRefresh srv s = (r, s')"
  shows "lastRefreshAttempt s' = lastRefreshAttempt s \<and> items s' = items s \<and>
         toasts s' = toasts s \<and> localStorage s' = localStorage s \<and>
         navigations s' = navigations s \<and>
         (\<exists>extra. requests s' = requests s @ extra \<and> list_all is_session_call extra \<and>
                  refresh_calls extra \<le> 1)"
  using assms
  by (auto simp: attemptTokenRefresh_def request_def refresh_calls_def Let_def
        split: sum.splits prod.splits option.splits if_splits)

lemma refreshToken_limited:
  "now - lastRefreshAttempt s < 2000 \<Longrightarrow> refreshToken now srv s = (user s \<noteq> None, s)"
  by (simp add: refreshToken_def)

lemma refreshToken_fields:
  assumes "refreshToken now srv s = (r, s')"
  shows "items s' = items s \<and> toasts s' = toasts s \<and> localStorage s' = localStorage s \<and>
         navigations s' = navigations s \<and>
         (\<not> now - lastRefreshAttempt s < 2000 \<longrightarrow> lastRefreshAttempt s' = now) \<and>
         (\<exists>extra. requests s' = requests s @ extra \<and> list_all is_session_call extra \<and>
                  refresh_calls extra \<le> 1)"
proof (cases "now - lastRefreshAttempt s < 2000")
  case True
  with assms have "s' = s" by (simp add: refreshToken_def)
  with True show ?thesis by (simp add: refresh_calls_def)
next
  case False
  let ?s1 = "s\<lparr>lastRefreshAttempt := now\<rparr>"
  show ?thesis
  proof (cases "read_tokens (authTokens ?s1)")
    case (Inl e)
    with False assms have "s' = clearAuthState ?s1" by (simp add: refreshToken_def Let_def)
    with False show ?thesis by (simp add: refresh_calls_def)
  next
    case (Inr toks)
    obtain accessToken refresh where t: "toks = (accessToken, refresh)" by (cases toks)
    show ?thesis
    proof (cases "truthy accessToken")
      case False
      obtain r2 s2 where a: "attemptTokenRefresh srv ?s1 = (r2, s2)"
        by (cases "attemptTokenRefresh srv ?s1")
      from attemptTokenRefresh_fields [OF a]
      have f: "lastRefreshAttempt s2 = now \<and> items s2 = items s \<and> toasts s2 = toasts s \<and>
               localStorage s2 = localStorage s \<and> navigations s2 = navigations s \<and>
               (\<exists>extra. requests s2 = requests s @ extra \<and> list_all is_session_call extra \<and>
                  refresh_calls extra \<le> 1)"
        by simp
      from assms \<open>\<not> now - lastRefreshAttempt s < 2000\<close> Inr t False a
      have "s' = s2 \<or> s' = clearAuthState s2"
        by (auto simp: refreshToken_def Let_def split: sum.splits)
      with f show ?thesis by auto
    next
      case True
      obtain p s2 where q: "request srv GetUserProfile ?s1 = (p, s2)"
        by (cases "request srv GetUserProfile ?s1")
      from request_fields [OF q]
      have f2: "requests s2 = requests s @ [GetUserProfile] \<and> lastRefreshAttempt s2 = now \<and>
                items s2 = items s \<and> toasts s2 = toasts s \<and> localStorage s2 = localStorage s \<and>
                navigations s2 = navigations s"
        by simp
      show ?thesis
      proof (cases p)
        case (Inr userData)
        with assms \<open>\<not> now - lastRefreshAttempt s < 2000\<close> \<open>read_tokens (authTokens ?s1) = Inr toks\<close> t True q
        have "s' = s2\<lparr>user := Some userData, storedUser := Some userData\<rparr>"
          by (simp add: refreshToken_def Let_def)
        with f2 show ?thesis by (simp add: refresh_calls_def)
      next
        case (Inl e)
        obtain r3 s3 where a: "attemptTokenRefresh srv s2 = (r3, s3)"
          by (cases "attemptTokenRefresh srv s2")
        from attemptTokenRefresh_fields [OF a] f2
        have f3: "lastRefreshAttempt s3 = now \<and> items s3 = items s \<and> toasts s3 = toasts s \<and>
                  localStorage s3 = localStorage s \<and> navigations s3 = navigations s \<and>
                  (\<exists>extra. requests s3 = requests s @ [GetUserProfile] @ extra \<and>
                     list_all is_session_call extra \<and> refresh_calls extra \<le> 1)"
          by auto
        then obtain extra where
          e: "requests s3 = requests s @ ([GetUserProfile] @ extra)"
             "list_all is_session_call ([GetUserProfile] @ extra)"
             "refresh_calls ([GetUserProfile] @ extra) \<le> 1"
          by (auto simp: refresh_calls_def)
        from assms \<open>\<not> now - lastRefreshAttempt s < 2000\<close> \<open>read_tokens (authTokens ?s1) = Inr toks\<close> t True q Inl a
        have "s' = s3 \<or> s' = clearAuthState s3"
          by (auto simp: refreshToken_def Let_def split: sum.splits)
        with f3 e show ?thesis by auto
      qed
    qed
  qed
qed

text \<open>
  C8 (as amended). When two calls of \<^verbatim>\<open>refreshToken\<close> are less than 2000 ms apart, at most
  one call to the refresh endpoint is sent by the two together; and when the first of them
  was not itself suppressed by the cooldown, the second returns the last known
  authentication status, sends nothing and changes nothing. The cooldown is measured from
  the last call that was not suppressed.
\<close>

theorem refreshToken_rate_limited:
  assumes "now2 - now1 < 2000"
  shows "refresh_calls (requests (snd (refreshToken now2 srv (snd (refreshToken now1 srv s)))))
           \<le> refresh_calls (requests s) + 1 \<and>
         (\<not> now1 - lastRefreshAttempt s < 2000 \<longrightarrow>
            refreshToken now2 srv (snd (refreshToken now1 srv s))
              = (user (snd (refreshToken now1 srv s)) \<noteq> None, snd (refreshToken now1 srv s)))"
proof -
  obtain r1 s1 where c1: "refreshToken now1 srv s = (r1, s1)"
    by (cases "refreshToken now1 srv s")
  obtain r2 s2 where c2: "refreshToken now2 srv s1 = (r2, s2)"
    by (cases "refreshToken now2 srv s1")
  from refreshToken_fields [OF c1] obtain extra1 where
    e1: "requests s1 = requests s @ extra1" "refresh_calls extra1 \<le> 1"
    and stamp: "\<not> now1 - lastRefreshAttempt s < 2000 \<longrightarrow> lastRefreshAttempt s1 = now1"
    by blast
  from refreshToken_fields [OF c2] obtain extra2 where
    e2: "requests s2 = requests s1 @ extra2" "refresh_calls extra2 \<le> 1"
    by blast
  have second: "\<not> now1 - lastRefreshAttempt s < 2000 \<Longrightarrow> refreshToken now2 srv s1 = (user s1 \<noteq> None, s1)"
    using stamp assms by (simp add: refreshToken_limited)
  have "refresh_calls (requests s2) \<le> refresh_calls (requests s) + 1"
  proof (cases "now1 - lastRefreshAttempt s < 2000")
    case True
    with c1 have "s1 = s" by (simp add: refreshToken_limited)
    with e2 show ?thesis by (simp add: refresh_calls_def)
  next
    case False
    from second [OF False] c2 have "s2 = s1" by simp
    with e1 show ?thesis by (simp add: refresh_calls_def)
  qed
  with second show ?thesis by (simp add: c1 c2)
qed

theorem refreshToken_rate_limited_witness:
  "(2500::int) - 2000 < 2000 \<and> \<not> (2000 - lastRefreshAttempt signed_in < 2000) \<and>
   refresh_calls (requests (snd (refreshToken 2500 ok_server (snd (refreshToken 2000 ok_server signed_in)))))
     \<le> refresh_calls (requests signed_in) + 1 \<and>
   refreshToken 2500 ok_server (snd (refreshToken 2000 ok_server signed_in))
     = (user (snd (refreshToken 2000 ok_server signed_in)) \<noteq> None,
        snd (refreshToken 2000 ok_server signed_in)) \<and>
   requests (snd (refreshToken 2500 ok_server (snd (refreshToken 2000 ok_server signed_in))))
     = [GetUserProfile]"
proof -
  have w: "(2500::int) - 2000 < 2000" by simp
  have a: "\<not> (2000 - lastRefreshAttempt signed_in < 2000)" by (simp add: signed_in_def)
  have first: "requests (snd (refreshToken 2000 ok_server signed_in)) = [GetUserProfile]"
    by (simp add: refreshToken_def signed_in_def request_def ok_server_def)
  from refreshToken_rate_limited [OF w, of ok_server signed_in] a
  have t1: "refresh_calls (requests (snd (refreshToken 2500 ok_server
                (snd (refreshToken 2000 ok_server signed_in)))))
              \<le> refresh_calls (requests signed_in) + 1"
    and t2: "refreshToken 2500 ok_server (snd (refreshToken 2000 ok_server signed_in))
               = (user (snd (refreshToken 2000 ok_server signed_in)) \<noteq> None,
                  snd (refreshToken 2000 ok_server signed_in))"
    by blast+
  have both: "requests (snd (refreshToken 2500 ok_server (snd (refreshToken 2000 ok_server signed_in))))
                = [GetUserProfile]"
    by (simp add: t2 first)
  from w a t1 t2 both show ?thesis by blast
qed

text \<open>
  The claim as stated fails when the first of the two calls is itself suppressed: the
  second, 1000 ms after it but 2500 ms after the last recorded attempt, calls the backend.
\<close>

theorem second_call_after_suppressed_call_refreshes:
  "(3500::int) - 2500 < 2000 \<and>
   refreshToken 2500 ok_server recently_refreshed = (True, recently_refreshed) \<and>
   requests (snd (refreshToken 3500 ok_server (snd (refreshToken 2500 ok_server recently_refreshed))))
     = [RefreshToken ''refresh-1'']"
  by (simp add: refreshToken_def attemptTokenRefresh_def recently_refreshed_def signed_in_def
        ok_server_def json_field_def clearAuthState_def)

section \<open>Checkout with an empty cart\<close>

lemma session_calls_are_not_orders:
  "list_all is_session_call cs \<Longrightarrow> \<not> list_ex is_order_call cs"
proof (induction cs)
  case Nil
  show ?case by simp
next
  case (Cons c cs)
  then show ?case by (cases c) simp_all
qed

text \<open>
  C9 (as amended). \<^verbatim>\<open>processCheckout\<close> with an empty cart returns \<^verbatim>\<open>null\<close>, leaves the
  cart and the storage unchanged, and appends one error notification (the cart is empty, or
  the session has expired when the refresh fails). It sends no order: the only calls it
  adds to the log are those of the session refresh that always runs first.
\<close>

theorem checkout_empty_cart_rejected:
  assumes "items s = []"
  shows "fst (processCheckout now srv shippingAddress paymentMethod s) = Inr None \<and>
         items (snd (processCheckout now srv shippingAddress paymentMethod s)) = [] \<and>
         localStorage (snd (processCheckout now srv shippingAddress paymentMethod s)) = localStorage s \<and>
         requests (snd (processCheckout now srv shippingAddress paymentMethod s))
           = requests (snd (refreshToken now srv (s\<lparr>isProcessing := True\<rparr>))) \<and>
         take (length (requests s)) (requests (snd (processCheckout now srv shippingAddress paymentMethod s)))
           = requests s \<and>
         list_all is_session_call
           (drop (length (requests s)) (requests (snd (processCheckout now srv shippingAddress paymentMethod s)))) \<and>
         \<not> list_ex is_order_call
           (drop (length (requests s)) (requests (snd (processCheckout now srv shippingAddress paymentMethod s)))) \<and>
         toasts (snd (processCheckout now srv shippingAddress paymentMethod s))
           = toasts s @
             [Error (if fst (refreshToken now srv (s\<lparr>isProcessing := True\<rparr>))
                     then ''Your cart is empty. Please add items before checking out.''
                     else ''Your session has expired. Please sign in again to continue.'')]"
proof -
  obtain r s1 where c: "refreshToken now srv (s\<lparr>isProcessing := True\<rparr>) = (r, s1)"
    by (cases "refreshToken now srv (s\<lparr>isProcessing := True\<rparr>)")
  from refreshToken_fields [OF c] obtain extra where
    f: "items s1 = items s" "toasts s1 = toasts s" "localStorage s1 = localStorage s"
       "requests s1 = requests s @ extra" "list_all is_session_call extra"
    by auto
  have run: "processCheckout now srv shippingAddress paymentMethod s =
               (Inr None,
                s1\<lparr>toasts := toasts s1 @
                      [Error (if r then ''Your cart is empty. Please add items before checking out.''
                              else ''Your session has expired. Please sign in again to continue.'')],
                   navigations := navigations s1 @ [''/cart''],
                   isProcessing := False\<rparr>)"
    using assms by (simp add: processCheckout_def Let_def c)
  have "\<not> list_ex is_order_call extra"
    using f(5) by (rule session_calls_are_not_orders)
  then show ?thesis
    using assms by (simp add: run c f)
qed

theorem checkout_empty_cart_rejected_witness:
  "items signed_in = [] \<and>
   fst (processCheckout 5000 ok_server home_address Cod signed_in) = Inr None \<and>
   items (snd (processCheckout 5000 ok_server home_address Cod signed_in)) = [] \<and>
   list_all is_session_call
     (drop (length (requests signed_in))
        (requests (snd (processCheckout 5000 ok_server home_address Cod signed_in)))) \<and>
   toasts (snd (processCheckout 5000 ok_server home_address Cod signed_in))
     = [Error ''Your cart is empty. Please add items before checking out.'']"
proof -
  have e: "items signed_in = []" by (simp add: signed_in_def)
  have r: "fst (refreshToken 5000 ok_server (signed_in\<lparr>isProcessing := True\<rparr>))"
    by (simp add: refreshToken_def signed_in_def request_def ok_server_def)
  have t: "toasts signed_in = []" by (simp add: signed_in_def)
  note th = checkout_empty_cart_rejected [OF e, of 5000 ok_server home_address Cod]
  from th have a1: "fst (processCheckout 5000 ok_server home_address Cod signed_in) = Inr None"
    by blast
  from th have a2: "items (snd (processCheckout 5000 ok_server home_address Cod signed_in)) = []"
    by blast
  from th have a3: "list_all is_session_call
     (drop (length (requests signed_in))
        (requests (snd (processCheckout 5000 ok_server home_address Cod signed_in))))"
    by blast
  from th have "toasts (snd (processCheckout 5000 ok_server home_address Cod signed_in))
     = toasts signed_in @
       [Error (if fst (refreshToken 5000 ok_server (signed_in\<lparr>isProcessing := True\<rparr>))
               then ''Your cart is empty. Please add items before checking out.''
               else ''Your session has expired. Please sign in again to continue.'')]"
    by blast
  then have a4: "toasts (snd (processCheckout 5000 ok_server home_address Cod signed_in))
     = [Error ''Your cart is empty. Please add items before checking out.'']"
    by (simp add: r t)
  from e a1 a2 a3 a4 show ?thesis by blast
qed

text \<open>
  The claim as stated fails: the session refresh runs before the cart is looked at, and for
  a signed-in user outside the cooldown it fetches the profile.
\<close>

theorem checkout_empty_cart_calls_backend:
  "items signed_in = [] \<and> requests signed_in = [] \<and>
   requests (snd (processCheckout 5000 ok_server home_address Cod signed_in)) = [GetUserProfile]"
  by (simp add: processCheckout_def refreshToken_def signed_in_def request_def ok_server_def)

end
